theory Spec2Isabelle
  imports Complex_Main
begin

section \<open>Python strings\<close>

text \<open>
  A Python \<open>str\<close> is a sequence of Unicode code points. The column names, the
  bullet glyphs of the enumeration prefix and the sample data lie outside ASCII, so a
  string is modelled as the list of its code points; \<open>ascii\<close> embeds an ASCII literal.
\<close>

type_synonym ustr = "nat list"

definition ascii :: "string \<Rightarrow> ustr" where
  "ascii s = map of_char s"

definition ch_nl :: nat where "ch_nl = 10"
definition ch_cr :: nat where "ch_cr = 13"
definition ch_pipe :: nat where "ch_pipe = 124"
definition ch_plus :: nat where "ch_plus = 43"
definition ch_minus :: nat where "ch_minus = 45"
definition ch_comma :: nat where "ch_comma = 44"
definition ch_percent :: nat where "ch_percent = 37"

text \<open>
  \<open>str.strip()\<close> without argument removes the code points for which
  \<open>str.isspace\<close> holds: U+0009..U+000D, U+001C..U+0020, U+0085, U+00A0, U+1680,
  U+2000..U+200A, U+2028, U+2029, U+202F, U+205F, U+3000.
\<close>

definition isspace :: "nat \<Rightarrow> bool" where
  "isspace c \<longleftrightarrow>
     (9 \<le> c \<and> c \<le> 13) \<or> (28 \<le> c \<and> c \<le> 32) \<or> c = 133 \<or> c = 160 \<or> c = 5760 \<or>
     (8192 \<le> c \<and> c \<le> 8202) \<or> c = 8232 \<or> c = 8233 \<or> c = 8239 \<or> c = 8287 \<or> c = 12288"

definition lstrip :: "ustr \<Rightarrow> ustr" where
  "lstrip s = dropWhile isspace s"

definition rstrip :: "ustr \<Rightarrow> ustr" where
  "rstrip s = rev (dropWhile isspace (rev s))"

definition strip :: "ustr \<Rightarrow> ustr" where
  "strip s = rstrip (lstrip s)"

text \<open>\<open>s.lstrip(chars)\<close>: drop the longest prefix made of code points of \<open>chars\<close>.\<close>

definition lstrip_chars :: "ustr \<Rightarrow> ustr \<Rightarrow> ustr" where
  "lstrip_chars chars s = dropWhile (\<lambda>c. c \<in> set chars) s"

text \<open>\<open>s.replace(old, new)\<close> for a one-character \<open>old\<close>.\<close>

definition replace :: "nat \<Rightarrow> ustr \<Rightarrow> ustr \<Rightarrow> ustr" where
  "replace old new s = concat (map (\<lambda>c. if c = old then new else [c]) s)"

text \<open>
  \<open>s.split(sep)\<close> for a one-character \<open>sep\<close>: empty pieces are kept, and the
  empty string splits into one empty piece.
\<close>

fun split :: "nat \<Rightarrow> ustr \<Rightarrow> ustr list" where
  "split sep [] = [[]]"
| "split sep (c # cs) =
     (if c = sep then [] # split sep cs
      else (case split sep cs of
              [] \<Rightarrow> [[c]]
            | w # ws \<Rightarrow> (c # w) # ws))"

text \<open>\<open>s.startswith((p1, p2, ...))\<close> for one-character prefixes.\<close>

definition startswith_any :: "nat list \<Rightarrow> ustr \<Rightarrow> bool" where
  "startswith_any ps s = (case s of [] \<Rightarrow> False | c # _ \<Rightarrow> c \<in> set ps)"


section \<open>Line segmentation (the loop of \<open>parse_db1\<close> and \<open>parse_db3\<close>)\<close>

text \<open>The argument of \<open>lstrip\<close> in both loops: \<open>"0123456789.-\<bullet>\<cdot>) "\<close>.\<close>

definition enum_chars :: ustr where
  "enum_chars = ascii ''0123456789.-'' @ [8226, 183] @ ascii '') ''"

text \<open>
  \<^verbatim>\<open>
  lines = []
  for line in raw.replace("\r", "").split("\n"):
      line = line.strip().lstrip("0123456789.-...) ")
      if line:
          lines.append(line)
  \<close>
\<close>

fun clean_lines :: "ustr list \<Rightarrow> ustr list \<Rightarrow> ustr list" where
  "clean_lines [] lines = lines"
| "clean_lines (line # rest) lines =
     (let line' = lstrip_chars enum_chars (strip line)
      in if line' \<noteq> [] then clean_lines rest (lines @ [line'])
         else clean_lines rest lines)"

definition segment_lines :: "ustr \<Rightarrow> ustr list" where
  "segment_lines raw = clean_lines (split ch_nl (replace ch_cr [] raw)) []"

section \<open>Pipe rows (\<open>parse_pipe\<close>)\<close>

text \<open>
  \<^verbatim>\<open>
  result = []
  for line in text.replace("\r", "").split("\n"):
      if "|" in line:
          result.append([p.strip() for p in line.split("|")])
  return result
  \<close>
\<close>

fun pipe_loop :: "ustr list \<Rightarrow> ustr list list \<Rightarrow> ustr list list" where
  "pipe_loop [] result = result"
| "pipe_loop (line # rest) result =
     (if ch_pipe \<in> set line
      then pipe_loop rest (result @ [map strip (split ch_pipe line)])
      else pipe_loop rest result)"

definition parse_pipe :: "ustr \<Rightarrow> ustr list list" where
  "parse_pipe text = pipe_loop (split ch_nl (replace ch_cr [] text)) []"


section \<open>Rows of the document store (\<open>get_prop\<close>)\<close>

text \<open>
  A row's \<open>properties\<close> object maps a column name to a property object, which
  carries its value under the key of its type: a title or rich text is a list of
  fragments (their \<open>plain_text\<close>), a select is an option object (its \<open>name\<close>)
  or null.
\<close>

datatype property = P_title "ustr list" | P_rich_text "ustr list" | P_select "ustr option"

type_synonym row = "(ustr \<times> property) list"

datatype ptype = PT_title | PT_rich_text | PT_select

text \<open>
  \<^verbatim>\<open>
  p = row.get("properties", {}).get(col)
  if not p: return ""
  val = p.get(ptype)
  if ptype in ("title", "rich_text"):
      return "".join(t.get("plain_text", "") for t in (val or []))
  if ptype == "select":
      return val.get("name", "") if isinstance(val, dict) else ""
  \<close>
  The \<open>number\<close> kind has no caller and is left out.
\<close>

fun get_prop :: "row \<Rightarrow> ustr \<Rightarrow> ptype \<Rightarrow> ustr" where
  "get_prop row col ptype =
     (case map_of row col of
        None \<Rightarrow> []
      | Some p \<Rightarrow>
          (case (ptype, p) of
             (PT_title, P_title val) \<Rightarrow> concat val
           | (PT_rich_text, P_rich_text val) \<Rightarrow> concat val
           | (PT_select, P_select (Some name)) \<Rightarrow> name
           | _ \<Rightarrow> []))"

text \<open>The column names, as code points.\<close>

definition col_date :: ustr where
  "col_date = [45216, 51676]"

definition col_market_strength :: ustr where
  "col_market_strength = [49884, 51109, 32, 44053, 46020]"

definition col_ai_summary :: ustr where
  "col_ai_summary = [65, 73, 32, 51, 51460, 32, 50836, 50557]"

definition col_stock_name :: ustr where
  "col_stock_name = [51333, 47785, 47749]"

definition col_lead_sectors :: ustr where
  "col_lead_sectors = [51452, 46020, 32, 49465, 53552]"

definition col_notable_stocks :: ustr where
  "col_notable_stocks = [53945, 51060, 32, 51333, 47785]"

definition col_news_title :: ustr where
  "col_news_title = [45684, 49828, 32, 51228, 47785]"

definition col_ai_news_summary :: ustr where
  "col_ai_news_summary = [65, 73, 32, 45684, 49828, 32, 50836, 50557]"

definition col_grade :: ustr where
  "col_grade = [52628, 52380, 46321, 44553]"

definition col_timeframe :: ustr where
  "col_timeframe = [53804, 51088, 44592, 44036]"

definition col_reason :: ustr where
  "col_reason = [52628, 52380, 49324, 50976]"

section \<open>The remote interface (\<open>n_get\<close>, \<open>n_post\<close>) and exceptions\<close>

text \<open>
  A remote call returns the decoded response or raises; every exception is caught by
  \<open>except Exception\<close> where it is caught at all, so its kind only names its origin.
\<close>

datatype exn = TransportError | ParseError | TypeError

datatype title_filter = Equals ustr | Contains ustr

record body =
  filter_property :: ustr
  filter_title :: title_filter
  page_size :: nat
  start_cursor :: "ustr option"

record 'a page =
  results :: "'a list"
  has_more :: bool
  next_cursor :: "ustr option"

record block =
  block_type :: ustr
  block_id :: ustr
  child_database_title :: ustr

text \<open>
  \<open>n_get\<close> is called on the children of a page, optionally from a cursor;
  \<open>n_post\<close> on the query endpoint of a database, with a body.
\<close>

record notion_api =
  n_get :: "ustr \<Rightarrow> ustr option \<Rightarrow> exn + block page"
  n_post :: "ustr \<Rightarrow> body \<Rightarrow> exn + row page"

text \<open>\<open>if cursor:\<close> holds for a non-empty string only.\<close>

definition truthy :: "ustr option \<Rightarrow> bool" where
  "truthy c \<longleftrightarrow> c \<noteq> None \<and> c \<noteq> Some []"

text \<open>
  A result of a computation that may raise, or not return: \<open>None\<close> is a loop that
  never ends, \<open>Some (Inl e)\<close> an exception, \<open>Some (Inr x)\<close> a value.
\<close>

definition bind_res :: "(exn + 'a) option \<Rightarrow> ('a \<Rightarrow> (exn + 'b) option) \<Rightarrow> (exn + 'b) option" where
  "bind_res m f = (case m of None \<Rightarrow> None | Some (Inl e) \<Rightarrow> Some (Inl e) | Some (Inr x) \<Rightarrow> f x)"

section \<open>Table discovery (\<open>get_child_dbs\<close>)\<close>

record db =
  db_id :: ustr
  db_title :: ustr

text \<open>
  \<^verbatim>\<open>
  dbs, cursor = [], None
  while True:
      url = f"/blocks/{page_id}/children?page_size=100"
      if cursor: url += f"&start_cursor={cursor}"
      data = n_get(url)
      for b in data.get("results", []):
          if b.get("type") == "child_database":
              dbs.append({"id": b["id"].replace("-", ""), "title": ...})
      if not data.get("has_more"): break
      cursor = data.get("next_cursor")
  return dbs
  \<close>
\<close>

definition child_db_of :: "block \<Rightarrow> db" where
  "child_db_of b = \<lparr>db_id = replace ch_minus [] (block_id b), db_title = child_database_title b\<rparr>"

partial_function (option) child_dbs_loop ::
  "notion_api \<Rightarrow> ustr \<Rightarrow> db list \<Rightarrow> ustr option \<Rightarrow> (exn + db list) option" where
  "child_dbs_loop api page_id dbs cursor =
     (case n_get api page_id (if truthy cursor then cursor else None) of
        Inl e \<Rightarrow> Some (Inl e)
      | Inr data \<Rightarrow>
          (let dbs' = dbs @ map child_db_of
                 (filter (\<lambda>b. block_type b = ascii ''child_database'') (results data))
           in if \<not> has_more data then Some (Inr dbs')
              else child_dbs_loop api page_id dbs' (next_cursor data)))"

definition get_child_dbs :: "notion_api \<Rightarrow> ustr \<Rightarrow> (exn + db list) option" where
  "get_child_dbs api page_id = child_dbs_loop api page_id [] None"

section \<open>Date-scoped query (\<open>query_by_date\<close>)\<close>

text \<open>
  \<^verbatim>\<open>
  body = {"filter": {"property": date_col, "title": {"equals": today_str}},
          "page_size": limit}
  rows, cursor = [], None
  while True:
      if cursor: body["start_cursor"] = cursor
      data = n_post(f"/databases/{db_id}/query", body)
      rows.extend(data.get("results", []))
      if not data.get("has_more"): break
      cursor = data.get("next_cursor")
  return rows
  \<close>
  The body is mutated: a start cursor once set stays until a later one replaces it.
\<close>

partial_function (option) query_loop ::
  "notion_api \<Rightarrow> ustr \<Rightarrow> body \<Rightarrow> row list \<Rightarrow> ustr option \<Rightarrow> (exn + row list) option" where
  "query_loop api dbid body rows cursor =
     (let body' = (if truthy cursor then body\<lparr>start_cursor := cursor\<rparr> else body)
      in case n_post api dbid body' of
           Inl e \<Rightarrow> Some (Inl e)
         | Inr data \<Rightarrow>
             (let rows' = rows @ results data
              in if \<not> has_more data then Some (Inr rows')
                 else query_loop api dbid body' rows' (next_cursor data)))"

definition query_body :: "ustr \<Rightarrow> ustr \<Rightarrow> nat \<Rightarrow> body" where
  "query_body date_col today_str limit =
     \<lparr>filter_property = date_col, filter_title = Equals today_str,
      page_size = limit, start_cursor = None\<rparr>"

definition query_by_date :: "notion_api \<Rightarrow> ustr \<Rightarrow> ustr \<Rightarrow> ustr \<Rightarrow> (exn + row list) option" where
  "query_by_date api dbid date_col today_str =
     query_loop api dbid (query_body date_col today_str 100) [] None"

section \<open>The output document\<close>

record 'n sector =
  sec_name :: ustr
  sec_change :: ustr
  sec_value :: 'n

record stock =
  stk_name :: ustr
  stk_reason :: ustr
  stk_price :: ustr
  stk_change :: ustr
  stk_pos :: bool

record news_item =
  news_time :: ustr
  news_headline :: ustr
  news_summary :: ustr
  news_tag :: ustr

record recommendation =
  rec_name :: ustr
  rec_grade :: ustr
  rec_timeframe :: ustr
  rec_reason :: ustr
  rec_featured :: bool

record 'n quote =
  price :: 'n
  change :: 'n
  pct :: 'n
  pos :: bool

text \<open>
  The normalizers return dictionaries that \<open>dict.update\<close> merges, so the document is
  a map from its keys to values of the shapes the source builds. \<open>'n\<close> is the type of
  Python's numbers.
\<close>

datatype 'n val =
    VStr ustr
  | VStrList "ustr list"
  | VSectors "'n sector list"
  | VStocks "stock list"
  | VNews "news_item list"
  | VRecs "recommendation list"
  | VIndices "(string \<times> 'n quote) list"

type_synonym 'n doc = "string \<rightharpoonup> 'n val"

section \<open>Table 1: the daily summary (\<open>parse_db1\<close>)\<close>

definition parse_db1_rows :: "row list \<Rightarrow> 'n doc" where
  "parse_db1_rows rows =
     (case rows of
        [] \<Rightarrow> [''summary'' \<mapsto> VStrList [], ''market_strength'' \<mapsto> VStr []]
      | row # _ \<Rightarrow>
          (let strength = get_prop row col_market_strength PT_select;
               raw = get_prop row col_ai_summary PT_rich_text;
               lines = segment_lines raw;
               summary = take 3 lines
           in [''summary'' \<mapsto> VStrList summary, ''market_strength'' \<mapsto> VStr strength]))"

definition parse_db1 :: "notion_api \<Rightarrow> ustr \<Rightarrow> ustr \<Rightarrow> (exn + 'n doc) option" where
  "parse_db1 api dbid today_str =
     bind_res (query_by_date api dbid col_date today_str)
       (\<lambda>rows. Some (Inr (parse_db1_rows rows)))"

section \<open>Table 2: sectors and notable stocks (\<open>safe_float\<close>, \<open>parse_db2\<close>)\<close>

text \<open>
  \<^verbatim>\<open>
  try: return float(str(s).replace(",", "").replace("+", "").replace("%", "").strip())
  except Exception: return 0.0
  \<close>
  The builtin \<open>float\<close> is a parameter: it returns a number or raises.
\<close>

definition safe_float :: "(ustr \<Rightarrow> 'n option) \<Rightarrow> ustr \<Rightarrow> 'n::zero" where
  "safe_float pyfloat s =
     (case pyfloat (strip (replace ch_percent [] (replace ch_plus [] (replace ch_comma [] s)))) of
        Some v \<Rightarrow> v
      | None \<Rightarrow> 0)"

text \<open>
  \<^verbatim>\<open>
  for parts in parse_pipe(sec_raw):
      if len(parts) >= 2 and parts[0]:
          chg = parts[1]
          if chg and not chg.startswith(("+", "-")):
              chg = f"+{chg}"
          sectors.append({"name": parts[0], "change": chg, "value": safe_float(chg)})
  \<close>
\<close>

fun sectors_loop ::
  "(ustr \<Rightarrow> 'n option) \<Rightarrow> ustr list list \<Rightarrow> 'n sector list \<Rightarrow> 'n::zero sector list" where
  "sectors_loop pyfloat [] sectors = sectors"
| "sectors_loop pyfloat (parts # rest) sectors =
     (if 2 \<le> length parts \<and> parts ! 0 \<noteq> []
      then (let chg = parts ! 1;
                chg = (if chg \<noteq> [] \<and> \<not> startswith_any [ch_plus, ch_minus] chg
                       then ch_plus # chg else chg)
            in sectors_loop pyfloat rest
                 (sectors @ [\<lparr>sec_name = parts ! 0, sec_change = chg,
                               sec_value = safe_float pyfloat chg\<rparr>]))
      else sectors_loop pyfloat rest sectors)"

text \<open>
  \<^verbatim>\<open>
  for parts in parse_pipe(stk_raw):
      if len(parts) >= 4 and parts[0]:
          chg = parts[3]
          stocks.append({"name": parts[0], "reason": parts[1], "price": parts[2],
                         "change": chg, "pos": not chg.strip().startswith("-")})
  \<close>
\<close>

fun stocks_loop :: "ustr list list \<Rightarrow> stock list \<Rightarrow> stock list" where
  "stocks_loop [] stocks = stocks"
| "stocks_loop (parts # rest) stocks =
     (if 4 \<le> length parts \<and> parts ! 0 \<noteq> []
      then (let chg = parts ! 3
            in stocks_loop rest
                 (stocks @ [\<lparr>stk_name = parts ! 0, stk_reason = parts ! 1,
                             stk_price = parts ! 2, stk_change = chg,
                             stk_pos = (\<not> startswith_any [ch_minus] (strip chg))\<rparr>]))
      else stocks_loop rest stocks)"

definition parse_db2_rows :: "(ustr \<Rightarrow> 'n option) \<Rightarrow> row list \<Rightarrow> 'n::zero doc" where
  "parse_db2_rows pyfloat rows =
     (case rows of
        [] \<Rightarrow> [''sectors'' \<mapsto> VSectors [], ''stocks'' \<mapsto> VStocks []]
      | row # _ \<Rightarrow>
          (let sec_raw = get_prop row col_lead_sectors PT_rich_text;
               stk_raw = get_prop row col_notable_stocks PT_rich_text;
               sectors = sectors_loop pyfloat (parse_pipe sec_raw) [];
               stocks = stocks_loop (parse_pipe stk_raw) []
           in [''sectors'' \<mapsto> VSectors sectors, ''stocks'' \<mapsto> VStocks stocks]))"

definition parse_db2 ::
  "(ustr \<Rightarrow> 'n option) \<Rightarrow> notion_api \<Rightarrow> ustr \<Rightarrow> ustr \<Rightarrow> (exn + 'n::zero doc) option" where
  "parse_db2 pyfloat api dbid today_str =
     bind_res (query_by_date api dbid col_stock_name today_str)
       (\<lambda>rows. Some (Inr (parse_db2_rows pyfloat rows)))"

section \<open>Table 3: news (\<open>parse_db3\<close>)\<close>

text \<open>
  The news query of \<open>parse_db3\<close>: one request with a \<open>contains\<close> filter and page
  size 10, whose \<open>results\<close> are the rows.
  \<^verbatim>\<open>
  body = {"filter": {"property": "...", "title": {"contains": today_str}}, "page_size": 10}
  data = n_post(f"/databases/{db_id}/query", body)
  rows = data.get("results", [])
  \<close>
\<close>

definition news_body :: "ustr \<Rightarrow> body" where
  "news_body today_str =
     \<lparr>filter_property = col_news_title, filter_title = Contains today_str,
      page_size = 10, start_cursor = None\<rparr>"

definition query_news :: "notion_api \<Rightarrow> ustr \<Rightarrow> ustr \<Rightarrow> exn + row list" where
  "query_news api dbid today_str =
     (case n_post api dbid (news_body today_str) of
        Inl e \<Rightarrow> Inl e
      | Inr data \<Rightarrow> Inr (results data))"

fun news_loop :: "ustr list \<Rightarrow> news_item list \<Rightarrow> news_item list" where
  "news_loop [] news = news"
| "news_loop (line # rest) news =
     (let line' = lstrip_chars enum_chars (strip line)
      in if line' \<noteq> []
         then news_loop rest
                (news @ [\<lparr>news_time = [], news_headline = line',
                          news_summary = [], news_tag = []\<rparr>])
         else news_loop rest news)"

definition parse_db3 :: "notion_api \<Rightarrow> ustr \<Rightarrow> ustr \<Rightarrow> 'n doc" where
  "parse_db3 api dbid today_str =
     (case query_news api dbid today_str of
        Inl e \<Rightarrow> [''news'' \<mapsto> VNews []]
      | Inr rows \<Rightarrow>
          (case rows of
             [] \<Rightarrow> [''news'' \<mapsto> VNews []]
           | row # _ \<Rightarrow>
               (let raw = strip (get_prop row col_ai_news_summary PT_rich_text)
                in if raw = [] then [''news'' \<mapsto> VNews []]
                   else [''news'' \<mapsto>
                           VNews (news_loop (split ch_nl (replace ch_cr [] raw)) [])])))"

section \<open>Table 4: recommendations (\<open>parse_db4\<close>)\<close>

text \<open>
  \<^verbatim>\<open>
  for i, row in enumerate(rows[:5]):
      name = get_prop(row, "...", "rich_text"); grade = ...; timeframe = ...; reason = ...
      if not name: continue
      recs.append({"name": name, "grade": grade or "B", "timeframe": timeframe or "-",
                   "reason": reason, "featured": i == 0})
  \<close>
  The default time frame is the one-character string U+2014.
\<close>

fun recs_loop :: "nat \<Rightarrow> row list \<Rightarrow> recommendation list \<Rightarrow> recommendation list" where
  "recs_loop i [] recs = recs"
| "recs_loop i (row # rest) recs =
     (let name = get_prop row col_stock_name PT_rich_text;
          grade = get_prop row col_grade PT_select;
          timeframe = get_prop row col_timeframe PT_select;
          reason = get_prop row col_reason PT_rich_text
      in if name = [] then recs_loop (Suc i) rest recs
         else recs_loop (Suc i) rest
                (recs @ [\<lparr>rec_name = name,
                          rec_grade = (if grade \<noteq> [] then grade else ascii ''B''),
                          rec_timeframe = (if timeframe \<noteq> [] then timeframe else [8212]),
                          rec_reason = reason,
                          rec_featured = (i = 0)\<rparr>]))"

definition parse_db4_rows :: "row list \<Rightarrow> recommendation list" where
  "parse_db4_rows rows = (case rows of [] \<Rightarrow> [] | _ \<Rightarrow> recs_loop 0 (take 5 rows) [])"

definition parse_db4 :: "notion_api \<Rightarrow> ustr \<Rightarrow> ustr \<Rightarrow> (exn + 'n doc) option" where
  "parse_db4 api dbid today_str =
     bind_res (query_by_date api dbid col_date today_str)
       (\<lambda>rows. Some (Inr [''recommendations'' \<mapsto> VRecs (parse_db4_rows rows)]))"

section \<open>Sample data (\<open>_sample_rec\<close>, \<open>SAMPLE_NOTION\<close>)\<close>

definition sample_rec :: "recommendation list" where
  "sample_rec =
    [\<lparr>rec_name = [49340, 49457, 51204, 51088],
      rec_grade = ascii ''A+'', rec_timeframe = [51473, 44592],
      rec_reason =
        [72, 66, 77, 32, 51204, 54872, 32, 44032, 49549, 32, 48143, 32, 54028,
         50868, 46300, 47532, 32, 49688, 51452, 32, 54924, 48373, 32, 49324, 51060,
         53364, 32, 51652, 51077, 46, 32, 51200, 51216, 32, 48516, 54624, 47588,
         49688, 32, 44396, 44036, 46],
      rec_featured = True\<rparr>,
     \<lparr>rec_name = [83, 75, 54616, 51060, 45769, 49828],
      rec_grade = ascii ''A'', rec_timeframe = [45800, 44592],
      rec_reason =
        [72, 66, 77, 51, 69, 32, 46021, 51216, 32, 44277, 44553, 32, 51648, 50948,
         32, 50976, 51648, 46, 32, 44256, 49688, 51061, 49457, 32, 44396, 51312,
         32, 51648, 49549, 46],
      rec_featured = False\<rparr>,
     \<lparr>rec_name = ascii ''NAVER'',
      rec_grade = ascii ''B+'', rec_timeframe = [51109, 44592],
      rec_reason =
        [72, 121, 112, 101, 114, 67, 76, 79, 86, 65, 32, 88, 32, 66, 50, 66, 32,
         51204, 54872, 32, 44032, 49549, 46, 32, 65, 73, 32, 49688, 51061, 54868,
         32, 52488, 51077, 32, 44396, 44036, 46],
      rec_featured = False\<rparr>]"

definition sample_summary :: "ustr list" where
  "sample_summary =
    [[48120, 32, 50672, 51456, 32, 44552, 47532, 32, 46041, 44208, 32, 49884, 49324,
     50640, 32, 53076, 49828, 54588, 183, 45208, 49828, 45797, 32, 46041, 48152,
     32, 49345, 49849, 46, 32, 50808, 44397, 51064, 32, 49692, 47588, 49688, 32,
     51204, 54872, 51060, 32, 51648, 49688, 32, 48169, 50612, 50640, 32, 44592,
     50668, 54664, 45796, 46],
     [65, 73, 32, 48152, 46020, 52404, 32, 49465, 53552, 32, 44553, 46321, 46, 32,
     50644, 48708, 46356, 50500, 32, 49892, 51201, 32, 49436, 54532, 46972, 51060,
     51592, 47196, 32, 83, 75, 54616, 51060, 45769, 49828, 183, 49340, 49457,
     51204, 51088, 32, 72, 66, 77, 32, 44288, 47144, 51452, 32, 44053, 49464, 46],
     [50896, 47, 45804, 47084, 32, 54872, 50984, 32, 49, 44, 51, 49, 48, 50896,
     45824, 32, 50504, 51221, 46, 32, 49688, 52636, 51452, 32, 48184, 47448, 50640,
     51060, 49496, 32, 44060, 49440, 32, 44592, 45824, 44048, 51060, 32, 53076,
     49828, 54588, 32, 50504, 52265, 51012, 32, 51060, 45132, 50632, 45796, 46]]"

definition sample_market_strength :: ustr where
  "sample_market_strength = [44053, 49464]"

definition sample_sectors :: "'n::{numeral,inverse,uminus} sector list" where
  "sample_sectors =
    [\<lparr>sec_name = [48152, 46020, 52404],
      sec_change = ascii ''+3.42%'', sec_value = 342 / 100\<rparr>,
     \<lparr>sec_name = [65, 73, 183, 49548, 54532, 53944, 50920, 50612],
      sec_change = ascii ''+2.81%'', sec_value = 281 / 100\<rparr>,
     \<lparr>sec_name = [50, 52264, 51204, 51648],
      sec_change = ascii ''+2.20%'', sec_value = 220 / 100\<rparr>,
     \<lparr>sec_name = [48148, 51060, 50724],
      sec_change = ascii ''+1.58%'', sec_value = 158 / 100\<rparr>,
     \<lparr>sec_name = [44552, 50997],
      sec_change = ascii ''-0.84%'', sec_value = - (84 / 100)\<rparr>,
     \<lparr>sec_name = [44148, 49444, 183, 48512, 46041, 49328],
      sec_change = ascii ''-1.43%'', sec_value = - (143 / 100)\<rparr>]"

definition sample_stocks :: "stock list" where
  "sample_stocks =
    [\<lparr>stk_name = [83, 75, 54616, 51060, 45769, 49828],
      stk_reason = [72, 66, 77, 51, 69, 32, 50577, 49328, 32, 54869, 45824],
      stk_price = ascii ''185,400'', stk_change = ascii ''+5.23%'', stk_pos = True\<rparr>,
     \<lparr>stk_name = [54620, 48120, 48152, 46020, 52404],
      stk_reason = [84, 67, 48376, 45908, 32, 49688, 51452, 32, 52404, 44208],
      stk_price = ascii ''94,800'', stk_change = ascii ''+8.71%'', stk_pos = True\<rparr>,
     \<lparr>stk_name = [49340, 49457, 83, 68, 73],
      stk_reason = [50976, 47101, 32, 49688, 50836, 32, 46164, 54868],
      stk_price = ascii ''312,000'', stk_change = ascii ''-3.12%'', stk_pos = False\<rparr>,
     \<lparr>stk_name = [52852, 52852, 50724, 54168, 51060],
      stk_reason = [54644, 50808, 44208, 51228, 32, 49436, 48708, 49828, 32, 54869, 45824],
      stk_price = ascii ''24,650'', stk_change = ascii ''+4.46%'', stk_pos = True\<rparr>]"

definition sample_news :: "news_item list" where
  "sample_news =
    [\<lparr>news_time = ascii ''09:02'',
      news_headline =
        [50672, 51456, 32, 49, 50900, 32, 51032, 49324, 47197, 32, 8212, 32, 44552,
         47532, 51064, 54616, 32, 49436, 46160, 47484, 32, 54596, 50836, 32, 50630,
         45796, 32, 44592, 51312, 32, 51116, 54869, 51064],
      news_summary = [], news_tag = [53685, 54868, 51221, 52293]\<rparr>,
     \<lparr>news_time = ascii ''10:15'',
      news_headline =
        [50644, 48708, 46356, 50500, 32, 48660, 47001, 50928, 32, 71, 80, 85, 32,
         44277, 44553, 45212, 32, 8212, 32, 44397, 45236, 32, 72, 66, 77, 32,
         44592, 50629, 32, 48152, 49324, 51060, 51061, 32, 44592, 45824],
      news_summary = [], news_tag = [48152, 46020, 52404]\<rparr>,
     \<lparr>news_time = ascii ''11:33'',
      news_headline =
        [51221, 48512, 32, 48184, 47448, 50629, 32, 50, 52264, 32, 54532, 47196,
         44536, 47016, 32, 48156, 54364, 32, 8212, 32, 51088, 49324, 51452, 32,
         49548, 44033, 32, 51032, 47924, 54868, 32, 45436, 51032],
      news_summary = [], news_tag = [51221, 52293]\<rparr>,
     \<lparr>news_time = ascii ''13:47'',
      news_headline =
        [66, 89, 68, 32, 44397, 45236, 32, 52636, 49884, 32, 51116, 50672, 44592,
         32, 8212, 32, 44397, 49328, 32, 50756, 49457, 52264, 183, 48176, 53552,
         47532, 51452, 32, 45800, 44592, 32, 49688, 54812],
      news_summary = [], news_tag = [51088, 46041, 52264]\<rparr>]"


definition SAMPLE_NOTION :: "'n::{numeral,inverse,uminus} doc" where
  "SAMPLE_NOTION =
     [''summary'' \<mapsto> VStrList sample_summary,
      ''market_strength'' \<mapsto> VStr sample_market_strength,
      ''sectors'' \<mapsto> VSectors sample_sectors,
      ''stocks'' \<mapsto> VStocks sample_stocks,
      ''news'' \<mapsto> VNews sample_news,
      ''recommendations'' \<mapsto> VRecs sample_rec]"

section \<open>All four tables (\<open>fetch_notion\<close>)\<close>

text \<open>
  \<^verbatim>\<open>
  dbs = get_child_dbs(NOTION_PAGE_ID)
  result = {}
  if len(dbs) >= 1: result.update(parse_db1(dbs[0]["id"], today_str))
  else:             result.update({"summary": [], "market_strength": ""})
  if len(dbs) >= 2: result.update(parse_db2(dbs[1]["id"], today_str))
  else:             result.update({"sectors": [], "stocks": []})
  if len(dbs) >= 3: result.update(parse_db3(dbs[2]["id"], today_str))
  else:             result.update({"news": []})
  if len(dbs) >= 4: result.update(parse_db4(dbs[3]["id"], today_str))
  else:             result.update({"recommendations": _sample_rec()})
  return result
  \<close>
  Each \<open>if\<close> is a definition of its own, named after its table.
\<close>

definition table1 :: "notion_api \<Rightarrow> db list \<Rightarrow> ustr \<Rightarrow> (exn + 'n doc) option" where
  "table1 api dbs today_str =
     (if 1 \<le> length dbs then parse_db1 api (db_id (dbs ! 0)) today_str
      else Some (Inr [''summary'' \<mapsto> VStrList [], ''market_strength'' \<mapsto> VStr []]))"

definition table2 ::
  "(ustr \<Rightarrow> 'n option) \<Rightarrow> notion_api \<Rightarrow> db list \<Rightarrow> ustr \<Rightarrow> (exn + 'n::zero doc) option" where
  "table2 pyfloat api dbs today_str =
     (if 2 \<le> length dbs then parse_db2 pyfloat api (db_id (dbs ! 1)) today_str
      else Some (Inr [''sectors'' \<mapsto> VSectors [], ''stocks'' \<mapsto> VStocks []]))"

definition table3 :: "notion_api \<Rightarrow> db list \<Rightarrow> ustr \<Rightarrow> (exn + 'n doc) option" where
  "table3 api dbs today_str =
     (if 3 \<le> length dbs then Some (Inr (parse_db3 api (db_id (dbs ! 2)) today_str))
      else Some (Inr [''news'' \<mapsto> VNews []]))"

definition table4 :: "notion_api \<Rightarrow> db list \<Rightarrow> ustr \<Rightarrow> (exn + 'n doc) option" where
  "table4 api dbs today_str =
     (if 4 \<le> length dbs then parse_db4 api (db_id (dbs ! 3)) today_str
      else Some (Inr [''recommendations'' \<mapsto> VRecs sample_rec]))"

definition fetch_notion ::
  "(ustr \<Rightarrow> 'n option) \<Rightarrow> notion_api \<Rightarrow> ustr \<Rightarrow> ustr \<Rightarrow> (exn + 'n::zero doc) option" where
  "fetch_notion pyfloat api page_id today_str =
     bind_res (get_child_dbs api page_id) (\<lambda>dbs.
     bind_res (table1 api dbs today_str) (\<lambda>r1.
     bind_res (table2 pyfloat api dbs today_str) (\<lambda>r2.
     bind_res (table3 api dbs today_str) (\<lambda>r3.
     bind_res (table4 api dbs today_str) (\<lambda>r4.
     Some (Inr (Map.empty ++ r1 ++ r2 ++ r3 ++ r4)))))))"

section \<open>Market feed (\<open>fetch_yahoo\<close>, \<open>fetch_indices\<close>)\<close>

text \<open>
  The \<open>meta\<close> object of a chart response: a key is absent, null, or a number.
\<close>

datatype 'n field = Absent | Null | Num 'n

record 'n meta =
  regularMarketPrice :: "'n field"
  chartPreviousClose :: "'n field"
  previousClose :: "'n field"

text \<open>\<open>x or y\<close>: \<open>x\<close> when it is a non-zero number, else \<open>y\<close>.\<close>

definition py_or :: "'n::zero field \<Rightarrow> 'n field \<Rightarrow> 'n field" where
  "py_or x y = (case x of Num v \<Rightarrow> if v \<noteq> 0 then x else y | _ \<Rightarrow> y)"

text \<open>
  The body of the \<open>try\<close>: \<open>market_price\<close> is \<open>price\<close>, \<open>previous_close\<close> is
  \<open>prev\<close>, and arithmetic on a null raises. The builtin \<open>round\<close> is a parameter.
  \<^verbatim>\<open>
  meta = json.loads(...)["chart"]["result"][0]["meta"]
  price  = meta.get("regularMarketPrice", 0)
  prev   = meta.get("chartPreviousClose") or meta.get("previousClose") or price
  change = price - prev
  pct    = (change / prev * 100) if prev else 0
  return {"price": round(price, dec), "change": round(change, dec),
          "pct": round(pct, 2), "pos": change >= 0}
  \<close>
\<close>

definition market_price :: "'n::zero meta \<Rightarrow> 'n field" where
  "market_price meta = (case regularMarketPrice meta of Absent \<Rightarrow> Num 0 | f \<Rightarrow> f)"

definition previous_close :: "'n::zero meta \<Rightarrow> 'n field" where
  "previous_close meta =
     py_or (chartPreviousClose meta) (py_or (previousClose meta) (market_price meta))"

definition yahoo_try ::
  "(ustr \<Rightarrow> exn + 'n meta) \<Rightarrow> ('n \<Rightarrow> nat \<Rightarrow> 'n) \<Rightarrow> ustr \<Rightarrow> nat
     \<Rightarrow> exn + 'n::{zero,numeral,minus,times,inverse,ord} quote" where
  "yahoo_try feed pyround symbol dec =
     (case feed symbol of
        Inl e \<Rightarrow> Inl e
      | Inr meta \<Rightarrow>
          (case (market_price meta, previous_close meta) of
             (Num p, Num prev) \<Rightarrow>
               (let chg = p - prev;
                    percent = (if prev \<noteq> 0 then chg / prev * 100 else 0)
                in Inr \<lparr>price = pyround p dec, change = pyround chg dec,
                        pct = pyround percent 2, pos = (chg \<ge> 0)\<rparr>)
           | _ \<Rightarrow> Inl TypeError))"

definition fetch_yahoo ::
  "(ustr \<Rightarrow> exn + 'n meta) \<Rightarrow> ('n \<Rightarrow> nat \<Rightarrow> 'n) \<Rightarrow> ustr \<Rightarrow> nat
     \<Rightarrow> 'n::{zero,numeral,minus,times,inverse,ord} quote" where
  "fetch_yahoo feed pyround symbol dec =
     (case yahoo_try feed pyround symbol dec of
        Inr q \<Rightarrow> q
      | Inl e \<Rightarrow> \<lparr>price = 0, change = 0, pct = 0, pos = True\<rparr>)"

definition TARGETS :: "(string \<times> string \<times> nat) list" where
  "TARGETS =
     [(''kospi'', ''^KS11'', 0), (''kosdaq'', ''^KQ11'', 0), (''sp500'', ''^GSPC'', 0),
      (''nasdaq'', ''^IXIC'', 0), (''usdkrw'', ''KRW=X'', 1), (''us10y'', ''^TNX'', 3),
      (''wti'', ''CL=F'', 2), (''gold'', ''GC=F'', 0)]"

definition fetch_indices ::
  "(ustr \<Rightarrow> exn + 'n meta) \<Rightarrow> ('n \<Rightarrow> nat \<Rightarrow> 'n)
     \<Rightarrow> (string \<times> 'n::{zero,numeral,minus,times,inverse,ord} quote) list" where
  "fetch_indices feed pyround =
     map (\<lambda>(key, sym, dec). (key, fetch_yahoo feed pyround (ascii sym) dec)) TARGETS"

section \<open>The run (\<open>main\<close>)\<close>

text \<open>
  What a run reads from its surroundings: the two environment variables, and the clock
  as the three strings made from it (UTC ISO-8601, the KST display string, today's date).
\<close>

record env =
  env_NOTION_TOKEN :: ustr
  env_NOTION_PAGE_ID :: ustr
  updated_at :: ustr
  updated_kst :: ustr
  today :: ustr

definition NOTION_PAGE_ID :: "env \<Rightarrow> ustr" where
  "NOTION_PAGE_ID e = replace ch_minus [] (env_NOTION_PAGE_ID e)"

text \<open>
  \<^verbatim>\<open>
  output = {"updated_at": ..., "updated_kst": ...}
  if NOTION_TOKEN and NOTION_PAGE_ID:
      try: output.update(fetch_notion())
      except Exception as e: output.update(SAMPLE_NOTION)
  else:
      output.update(SAMPLE_NOTION)
  output["indices"] = fetch_indices()
  json.dump(output, f, ...)
  \<close>
  The result is the document handed to \<open>json.dump\<close>; \<open>None\<close> is a run that never
  gets there.
\<close>

definition main ::
  "(ustr \<Rightarrow> 'n option) \<Rightarrow> ('n \<Rightarrow> nat \<Rightarrow> 'n) \<Rightarrow> env \<Rightarrow> notion_api \<Rightarrow> (ustr \<Rightarrow> exn + 'n meta)
     \<Rightarrow> 'n::{zero,numeral,uminus,minus,times,inverse,ord} doc option" where
  "main pyfloat pyround e api feed =
     (let output = [''updated_at'' \<mapsto> VStr (updated_at e), ''updated_kst'' \<mapsto> VStr (updated_kst e)];
          notion =
            (if env_NOTION_TOKEN e \<noteq> [] \<and> NOTION_PAGE_ID e \<noteq> []
             then (case fetch_notion pyfloat api (NOTION_PAGE_ID e) (today e) of
                     None \<Rightarrow> None
                   | Some (Inr r) \<Rightarrow> Some (output ++ r)
                   | Some (Inl ex) \<Rightarrow> Some (output ++ SAMPLE_NOTION))
             else Some (output ++ SAMPLE_NOTION))
      in case notion of
           None \<Rightarrow> None
         | Some output \<Rightarrow> Some (output(''indices'' \<mapsto> VIndices (fetch_indices feed pyround))))"

section \<open>Exact numbers, for evaluation\<close>

text \<open>
  To evaluate the model at concrete inputs the number type is instantiated with the
  rationals: a decimal literal is read exactly, and \<open>round(x, n)\<close> rounds the exact
  value to \<open>n\<close> decimals, a tie going to the even neighbour, as Python does.
\<close>

definition is_digit :: "nat \<Rightarrow> bool" where
  "is_digit c \<longleftrightarrow> 48 \<le> c \<and> c \<le> 57"

definition digits_value :: "ustr \<Rightarrow> nat" where
  "digits_value ds = foldl (\<lambda>acc c. 10 * acc + (c - 48)) 0 ds"

definition decimal_float :: "ustr \<Rightarrow> rat option" where
  "decimal_float s =
     (let t = strip s;
          neg = startswith_any [ch_minus] t;
          u = (if startswith_any [ch_plus, ch_minus] t then tl t else t);
          ip = takeWhile is_digit u;
          rest = dropWhile is_digit u;
          fp = (if startswith_any [46] rest then tl rest else rest)
      in if (rest = [] \<or> startswith_any [46] rest) \<and> list_all is_digit fp \<and> ip @ fp \<noteq> []
         then Some ((if neg then - 1 else 1) * rat_of_nat (digits_value (ip @ fp)) / 10 ^ length fp)
         else None)"

definition round_half_even :: "rat \<Rightarrow> nat \<Rightarrow> rat" where
  "round_half_even x n =
     (let s = x * 10 ^ n;
          f = \<lfloor>s\<rfloor>;
          d = s - rat_of_int f;
          r = (if d < 1 / 2 then f else if 1 / 2 < d then f + 1
               else if even f then f else f + 1)
      in rat_of_int r / 10 ^ n)"

section \<open>Properties stated of inputs, and example inputs\<close>


text \<open>
  A sector text of four lines: a Korean sector name with its change, a line without a
  pipe, a second sector, and a row whose name field is empty.
\<close>

definition ex_sector_text :: ustr where
  "ex_sector_text =
     [48152, 46020, 52404] @ ascii '' | +3.42%'' @ [ch_nl] @ ascii ''noise line'' @ [ch_nl] @
     ascii ''AI | +2.81%'' @ [ch_nl] @ ascii '' | 1%''"

text \<open>
  The sector entry as the description of the sector rule words it, to be compared with
  what \<open>sectors_loop\<close> builds: the name is the first field; the change is the second
  field, with a \<open>+\<close> in front when it is not empty and starts with neither \<open>+\<close> nor
  \<open>-\<close>; the value is \<open>float\<close> of the second field without its \<open>,\<close>, \<open>+\<close> and
  \<open>%\<close> characters, trimmed, or zero when \<open>float\<close> raises.
\<close>

definition spec_sector :: "(ustr \<Rightarrow> 'n option) \<Rightarrow> ustr list \<Rightarrow> 'n::zero sector" where
  "spec_sector pyfloat parts =
     \<lparr>sec_name = parts ! 0,
      sec_change = (if parts ! 1 = [] \<or> startswith_any [ch_plus, ch_minus] (parts ! 1)
                    then parts ! 1 else ch_plus # parts ! 1),
      sec_value =
        (case pyfloat (strip (filter (\<lambda>c. c \<noteq> ch_comma \<and> c \<noteq> ch_plus \<and> c \<noteq> ch_percent)
                                (parts ! 1))) of
           Some v \<Rightarrow> v
         | None \<Rightarrow> 0)\<rparr>"

text \<open>
  The name column of a recommendation row, and the entry the loop of \<open>parse_db4\<close>
  appends for a row, given its \<open>featured\<close> flag.
\<close>

definition row_name :: "row \<Rightarrow> ustr" where
  "row_name row = get_prop row col_stock_name PT_rich_text"

definition rec_of :: "bool \<Rightarrow> row \<Rightarrow> recommendation" where
  "rec_of first row =
     \<lparr>rec_name = row_name row,
      rec_grade = (if get_prop row col_grade PT_select \<noteq> []
                   then get_prop row col_grade PT_select else ascii ''B''),
      rec_timeframe = (if get_prop row col_timeframe PT_select \<noteq> []
                       then get_prop row col_timeframe PT_select else [8212]),
      rec_reason = get_prop row col_reason PT_rich_text,
      rec_featured = first\<rparr>"

text \<open>
  Recommendation rows that carry a date and a name only: three rows with the names of
  the sample set, and six rows of which the first has an empty name.
\<close>

definition named_row :: "ustr \<Rightarrow> row" where
  "named_row n = [(col_date, P_title [ascii ''2026-02-20'']), (col_stock_name, P_rich_text [n])]"

definition ex_rows3 :: "row list" where
  "ex_rows3 =
     [named_row [49340, 49457, 51204, 51088], named_row [83, 75, 54616, 51060, 45769, 49828],
      named_row (ascii ''NAVER'')]"

definition ex_rows6 :: "row list" where
  "ex_rows6 =
     [named_row [], named_row (ascii ''A''), named_row (ascii ''B''), named_row (ascii ''C''),
      named_row (ascii ''D''), named_row (ascii ''E'')]"

text \<open>
  Feeds that answer every symbol alike: price 100 after a close of 95; price 0 with no
  close reported.
\<close>

definition ex_feed :: "ustr \<Rightarrow> exn + rat meta" where
  "ex_feed symbol =
     Inr \<lparr>regularMarketPrice = Num 100, chartPreviousClose = Num 95, previousClose = Absent\<rparr>"

definition ex_feed_flat :: "ustr \<Rightarrow> exn + rat meta" where
  "ex_feed_flat symbol =
     Inr \<lparr>regularMarketPrice = Num 0, chartPreviousClose = Absent, previousClose = Null\<rparr>"

text \<open>A feed that reports price 100 and a previous close of zero.\<close>

definition ex_feed_zero :: "ustr \<Rightarrow> exn + rat meta" where
  "ex_feed_zero symbol =
     Inr \<lparr>regularMarketPrice = Num 100, chartPreviousClose = Num 0, previousClose = Num 0\<rparr>"

text \<open>A field of the feed that holds a number other than zero.\<close>

definition nonzero_number :: "'n::zero field \<Rightarrow> bool" where
  "nonzero_number f = (case f of Num v \<Rightarrow> v \<noteq> 0 | _ \<Rightarrow> False)"

text \<open>
  A provider serves a sequence of pages to a query body: it answers the body with the
  first page; every page but the last reports more pages and names the next by a cursor
  that is not empty, and the provider answers the body carrying that cursor with the
  next page; the last page reports no more pages.
\<close>

fun serves :: "notion_api \<Rightarrow> ustr \<Rightarrow> body \<Rightarrow> row page list \<Rightarrow> bool" where
  "serves api dbid body [] = False"
| "serves api dbid body [pg] = (n_post api dbid body = Inr pg \<and> \<not> has_more pg)"
| "serves api dbid body (pg # pg' # pgs) =
     (n_post api dbid body = Inr pg \<and> has_more pg \<and> truthy (next_cursor pg) \<and>
      serves api dbid (body\<lparr>start_cursor := next_cursor pg\<rparr>) (pg' # pgs))"

text \<open>
  A provider with three pages of rows, reporting more pages twice, whatever the
  database and the filter; it lists no child blocks.
\<close>

definition ex_page1 :: "row page" where
  "ex_page1 =
     \<lparr>results = [named_row (ascii ''A''), named_row (ascii ''B'')], has_more = True,
      next_cursor = Some (ascii ''c1'')\<rparr>"

definition ex_page2 :: "row page" where
  "ex_page2 =
     \<lparr>results = [named_row (ascii ''C'')], has_more = True,
      next_cursor = Some (ascii ''c2'')\<rparr>"

definition ex_page3 :: "row page" where
  "ex_page3 =
     \<lparr>results = [named_row (ascii ''D''), named_row (ascii ''E'')], has_more = False,
      next_cursor = None\<rparr>"

definition ex_paged_api :: notion_api where
  "ex_paged_api =
     \<lparr>n_get = (\<lambda>page_id cursor. Inl TransportError),
      n_post = (\<lambda>dbid body.
        if start_cursor body = None then Inr ex_page1
        else if start_cursor body = Some (ascii ''c1'') then Inr ex_page2
        else if start_cursor body = Some (ascii ''c2'') then Inr ex_page3
        else Inl TransportError)\<rparr>"

text \<open>
  What the news loop promises of an item: no time, summary or tag, and a headline that
  is not empty and does not start with an enumeration character.
\<close>

definition news_ok :: "news_item \<Rightarrow> bool" where
  "news_ok n \<longleftrightarrow>
     news_time n = [] \<and> news_summary n = [] \<and> news_tag n = [] \<and> news_headline n \<noteq> [] \<and>
     hd (news_headline n) \<notin> set enum_chars"

text \<open>The document of the six entries that the four tables contribute.\<close>

definition notion_doc ::
  "ustr list \<Rightarrow> ustr \<Rightarrow> 'n sector list \<Rightarrow> stock list \<Rightarrow> news_item list \<Rightarrow> recommendation list \<Rightarrow> 'n doc" where
  "notion_doc s m a b ns rs =
     [''summary'' \<mapsto> VStrList s, ''market_strength'' \<mapsto> VStr m, ''sectors'' \<mapsto> VSectors a,
      ''stocks'' \<mapsto> VStocks b, ''news'' \<mapsto> VNews ns, ''recommendations'' \<mapsto> VRecs rs]"

text \<open>
  The document of a run, from the part of the document store and the indices.
\<close>

definition run_doc :: "env \<Rightarrow> 'n doc \<Rightarrow> (string \<times> 'n quote) list \<Rightarrow> 'n doc" where
  "run_doc e r ix =
     ([''updated_at'' \<mapsto> VStr (updated_at e), ''updated_kst'' \<mapsto> VStr (updated_kst e)] ++ r)
       (''indices'' \<mapsto> VIndices ix)"

text \<open>
  A run on 2026-02-20, configured, against a page of up to four tables of which one
  may fail: the date, the environment, the texts and rows of the tables, the child
  blocks, the provider, and what the tables normalise to.
\<close>

definition ex_today :: ustr where "ex_today = ascii ''2026-02-20''"

definition ex_env :: env where
  "ex_env = \<lparr>env_NOTION_TOKEN = ascii ''secret'', env_NOTION_PAGE_ID = ascii ''page-1'',
             updated_at = ascii ''2026-02-20T00:00:00+00:00'',
             updated_kst = ascii ''2026-02-20 09:00 KST'', today = ex_today\<rparr>"

definition ex_summary_text :: ustr where
  "ex_summary_text = ascii ''1. A'' @ [ch_nl] @ ascii ''- B''"

definition ex_stocks_text :: ustr where
  "ex_stocks_text = ascii ''X | r | 1,000 | -1%''"

definition ex_news_text :: ustr where
  "ex_news_text = ascii ''1. N1'' @ [ch_nl] @ ascii ''2) N2''"

definition ex_row1 :: row where
  "ex_row1 = [(col_date, P_title [ex_today]),
              (col_market_strength, P_select (Some [44053, 49464])),
              (col_ai_summary, P_rich_text [ex_summary_text])]"

definition ex_row2 :: row where
  "ex_row2 = [(col_stock_name, P_title [ex_today]),
              (col_lead_sectors, P_rich_text [ascii ''S | '', ascii ''3.42%'']),
              (col_notable_stocks, P_rich_text [ex_stocks_text])]"

definition ex_row3 :: row where
  "ex_row3 = [(col_news_title, P_title [ex_today, ascii '' news'']),
              (col_ai_news_summary, P_rich_text [ex_news_text])]"

definition ex_blocks :: "block list" where
  "ex_blocks =
     [\<lparr>block_type = ascii ''child_database'', block_id = ascii ''db-1'', child_database_title = ascii ''t1''\<rparr>,
      \<lparr>block_type = ascii ''child_database'', block_id = ascii ''db-2'', child_database_title = ascii ''t2''\<rparr>,
      \<lparr>block_type = ascii ''child_database'', block_id = ascii ''db-3'', child_database_title = ascii ''t3''\<rparr>,
      \<lparr>block_type = ascii ''child_database'', block_id = ascii ''db-4'', child_database_title = ascii ''t4''\<rparr>]"

definition ex_table :: "ustr \<Rightarrow> row list" where
  "ex_table dbid =
     (if dbid = ascii ''db1'' then [ex_row1]
      else if dbid = ascii ''db2'' then [ex_row2]
      else if dbid = ascii ''db3'' then [ex_row3]
      else if dbid = ascii ''db4'' then ex_rows3
      else [])"

definition ex_api :: "nat \<Rightarrow> ustr \<Rightarrow> notion_api" where
  "ex_api n failing =
     \<lparr>n_get = (\<lambda>page_id cursor.
        Inr \<lparr>results = take n ex_blocks, has_more = False, next_cursor = None\<rparr>),
      n_post = (\<lambda>dbid body.
        if dbid = failing then Inl TransportError
        else Inr \<lparr>results = ex_table dbid, has_more = False, next_cursor = None\<rparr>)\<rparr>"

definition ex_dbs :: "db list" where
  "ex_dbs = [\<lparr>db_id = ascii ''db1'', db_title = ascii ''t1''\<rparr>, \<lparr>db_id = ascii ''db2'', db_title = ascii ''t2''\<rparr>,
     \<lparr>db_id = ascii ''db3'', db_title = ascii ''t3''\<rparr>, \<lparr>db_id = ascii ''db4'', db_title = ascii ''t4''\<rparr>]"

definition ex_sectors :: "rat sector list" where
  "ex_sectors = [\<lparr>sec_name = ascii ''S'', sec_change = ascii ''+3.42%'', sec_value = 342 / 100\<rparr>]"

definition ex_stocks :: "stock list" where
  "ex_stocks = [\<lparr>stk_name = ascii ''X'', stk_reason = ascii ''r'', stk_price = ascii ''1,000'',
                 stk_change = ascii ''-1%'', stk_pos = False\<rparr>]"

definition ex_news :: "news_item list" where
  "ex_news = [\<lparr>news_time = [], news_headline = ascii ''N1'', news_summary = [], news_tag = []\<rparr>,
              \<lparr>news_time = [], news_headline = ascii ''N2'', news_summary = [], news_tag = []\<rparr>]"

definition ex_recs :: "recommendation list" where
  "ex_recs = [rec_of True (ex_rows3 ! 0), rec_of False (ex_rows3 ! 1), rec_of False (ex_rows3 ! 2)]"

text \<open>
  The shapes of the values of the document, and the shape each of the nine keys has.
\<close>

datatype vtype = T_string | T_string_list | T_sectors | T_stocks | T_news | T_recommendations | T_indices

fun val_type :: "'n val \<Rightarrow> vtype" where
  "val_type (VStr _) = T_string"
| "val_type (VStrList _) = T_string_list"
| "val_type (VSectors _) = T_sectors"
| "val_type (VStocks _) = T_stocks"
| "val_type (VNews _) = T_news"
| "val_type (VRecs _) = T_recommendations"
| "val_type (VIndices _) = T_indices"

definition doc_schema :: "(string \<times> vtype) list" where
  "doc_schema =
     [(''updated_at'', T_string), (''updated_kst'', T_string), (''summary'', T_string_list),
      (''market_strength'', T_string), (''sectors'', T_sectors), (''stocks'', T_stocks),
      (''news'', T_news), (''recommendations'', T_recommendations), (''indices'', T_indices)]"

text \<open>
  The quote that stands in for a failed lookup.
\<close>

definition zero_quote :: "'n::zero quote" where
  "zero_quote = \<lparr>price = 0, change = 0, pct = 0, pos = True\<rparr>"

text \<open>
  A run without a token; a provider and a feed of which every call raises.
\<close>

definition ex_env_unset :: env where
  "ex_env_unset = ex_env\<lparr>env_NOTION_TOKEN := []\<rparr>"

definition ex_api_down :: notion_api where
  "ex_api_down = \<lparr>n_get = (\<lambda>page_id cursor. Inl TransportError),
                  n_post = (\<lambda>dbid body. Inl TransportError)\<rparr>"

definition ex_feed_down :: "ustr \<Rightarrow> exn + rat meta" where
  "ex_feed_down symbol = Inl TransportError"

text \<open>
  The document of a run in which every remote call fails, and the part of the document
  store that the example provider yields, given its recommendations.
\<close>

definition ex_down_doc :: "rat doc" where
  "ex_down_doc =
     run_doc ex_env SAMPLE_NOTION
       [(''kospi'', zero_quote), (''kosdaq'', zero_quote), (''sp500'', zero_quote),
        (''nasdaq'', zero_quote), (''usdkrw'', zero_quote), (''us10y'', zero_quote),
        (''wti'', zero_quote), (''gold'', zero_quote)]"

definition ex_notion_doc :: "recommendation list \<Rightarrow> rat doc" where
  "ex_notion_doc rs =
     notion_doc [ascii ''A'', ascii ''B''] [44053, 49464] ex_sectors ex_stocks ex_news rs"

text \<open>
  The provider that raises on the news query of a day, whatever the database, and answers
  every other call as the given provider does.
\<close>

definition raise_news :: "notion_api \<Rightarrow> ustr \<Rightarrow> exn \<Rightarrow> notion_api" where
  "raise_news api today_str ex =
     api\<lparr>n_post := (\<lambda>dbid body. if body = news_body today_str then Inl ex
                                 else n_post api dbid body)\<rparr>"

text \<open>
  Two providers answer alike every query whose body carries the given title filter.
\<close>

definition agree_on :: "title_filter \<Rightarrow> notion_api \<Rightarrow> notion_api \<Rightarrow> bool" where
  "agree_on flt api api' \<longleftrightarrow> (\<forall>dbid body. filter_title body = flt \<longrightarrow> n_post api' dbid body = n_post api dbid body)"

section \<open>Facts about the string operations\<close>


lemma replace_remove: "replace old [] s = filter (\<lambda>c. c \<noteq> old) s"
  by (induction s) (simp_all add: replace_def)

lemma split_not_Nil: "split sep s \<noteq> []"
  by (induction s) (simp_all split: list.splits)



lemma split_length_sep: "sep \<in> set s \<Longrightarrow> 2 \<le> length (split sep s)"
proof (induction s)
  case Nil
  then show ?case by simp
next
  case (Cons c cs)
  show ?case
  proof (cases "c = sep")
    case True
    have "1 \<le> length (split sep cs)"
      using split_not_Nil [of sep cs] by (cases "split sep cs") simp_all
    with True show ?thesis by simp
  next
    case False
    with Cons.prems have "sep \<in> set cs" by simp
    with Cons.IH have "2 \<le> length (split sep cs)" .
    with False show ?thesis by (cases "split sep cs") simp_all
  qed
qed


lemma dropWhile_rev_last:
  "s \<noteq> [] \<Longrightarrow> \<not> P (last s) \<Longrightarrow> dropWhile P (rev s) = rev s"
  by (cases s rule: rev_cases) simp_all

lemma rstrip_last: "rstrip s \<noteq> [] \<Longrightarrow> \<not> isspace (last (rstrip s))"
proof -
  assume ne: "rstrip s \<noteq> []"
  then have "dropWhile isspace (rev s) \<noteq> []" by (simp add: rstrip_def)
  then have "\<not> isspace (hd (dropWhile isspace (rev s)))" by (rule hd_dropWhile)
  moreover have "last (rstrip s) = hd (dropWhile isspace (rev s))"
    using ne by (simp add: rstrip_def last_rev)
  ultimately show ?thesis by simp
qed

lemma rstrip_hd: "rstrip s \<noteq> [] \<Longrightarrow> hd (rstrip s) = hd s"
proof (induction s rule: rev_induct)
  case Nil
  then show ?case by (simp add: rstrip_def)
next
  case (snoc c s)
  show ?case
  proof (cases "isspace c")
    case True
    then have eq: "rstrip (s @ [c]) = rstrip s" by (simp add: rstrip_def)
    with snoc have "hd (rstrip s) = hd s" by simp
    moreover have "s \<noteq> []" using snoc.prems eq by (auto simp: rstrip_def)
    ultimately show ?thesis using eq by simp
  next
    case False
    then show ?thesis by (simp add: rstrip_def)
  qed
qed

lemma strip_hd: "strip s \<noteq> [] \<Longrightarrow> \<not> isspace (hd (strip s))"
proof -
  assume ne: "strip s \<noteq> []"
  then have "lstrip s \<noteq> []" by (auto simp: strip_def rstrip_def)
  then have "\<not> isspace (hd (lstrip s))" unfolding lstrip_def by (rule hd_dropWhile)
  moreover have "hd (strip s) = hd (lstrip s)"
    using ne unfolding strip_def by (rule rstrip_hd)
  ultimately show ?thesis by simp
qed

lemma strip_last: "strip s \<noteq> [] \<Longrightarrow> \<not> isspace (last (strip s))"
  unfolding strip_def by (rule rstrip_last)

lemma strip_trimmed:
  assumes "s \<noteq> []" and "\<not> isspace (hd s)" and "\<not> isspace (last s)"
  shows "strip s = s"
proof -
  have "lstrip s = s" using assms(1,2) by (cases s) (simp_all add: lstrip_def)
  moreover have "rstrip s = s"
    using assms(1,3) by (simp add: rstrip_def dropWhile_rev_last)
  ultimately show ?thesis by (simp add: strip_def)
qed



lemma pipe_loop_filter:
  "pipe_loop ls acc =
     acc @ map (\<lambda>l. map strip (split ch_pipe l)) (filter (\<lambda>l. ch_pipe \<in> set l) ls)"
  by (induction ls arbitrary: acc) simp_all



lemma strip_strip: "strip (strip s) = strip s"
proof (cases "strip s = []")
  case True
  have "strip [] = []" by (simp add: strip_def lstrip_def rstrip_def)
  with True show ?thesis by simp
next
  case False
  then show ?thesis by (simp add: strip_trimmed strip_hd strip_last)
qed

section \<open>Line segmentation\<close>








section \<open>Pipe rows and sectors\<close>

lemma parse_pipe_eq:
  "parse_pipe text =
     map (\<lambda>l. map strip (split ch_pipe l))
       (filter (\<lambda>l. ch_pipe \<in> set l) (split ch_nl (replace ch_cr [] text)))"
  by (simp add: parse_pipe_def pipe_loop_filter)

lemma parse_pipe_row_length: "row \<in> set (parse_pipe text) \<Longrightarrow> 2 \<le> length row"
  by (auto simp: parse_pipe_eq split_length_sep)

lemma parse_pipe_field_trimmed:
  "row \<in> set (parse_pipe text) \<Longrightarrow> f \<in> set row \<Longrightarrow> strip f = f"
  by (auto simp: parse_pipe_eq strip_strip)

lemma sectors_loop_names:
  "\<forall>parts \<in> set rows. 2 \<le> length parts \<Longrightarrow>
   map sec_name (sectors_loop pyfloat rows acc) =
     map sec_name acc @ filter (\<lambda>n. n \<noteq> []) (map (\<lambda>parts. parts ! 0) rows)"
  by (induction rows arbitrary: acc) (simp_all add: Let_def)

lemma parse_pipe_example:
  "parse_pipe ex_sector_text =
     [[[48152, 46020, 52404], ascii ''+3.42%''], [ascii ''AI'', ascii ''+2.81%''],
      [[], ascii ''1%'']]"
  by (simp add: ex_sector_text_def parse_pipe_def ascii_def ch_nl_def ch_cr_def ch_pipe_def
      replace_def strip_def lstrip_def rstrip_def isspace_def)

text \<open>
  C10. Every row that \<open>parse_pipe\<close> returns has at least two fields, and every field
  is trimmed: stripping it changes nothing, and a field that is not empty neither
  starts nor ends with white space. So the sector loop never drops a parsed row for
  its length: the names of the sectors it emits are the first fields of the parsed
  rows that are not empty, in order.
\<close>

theorem parse_pipe_rows:
  "(\<forall>row \<in> set (parse_pipe text).
      2 \<le> length row \<and>
      (\<forall>f \<in> set row. strip f = f \<and> (f \<noteq> [] \<longrightarrow> \<not> isspace (hd f) \<and> \<not> isspace (last f)))) \<and>
   map sec_name (sectors_loop pyfloat (parse_pipe text) []) =
     filter (\<lambda>n. n \<noteq> []) (map (\<lambda>parts. parts ! 0) (parse_pipe text))"
proof -
  have "strip f = f \<and> (f \<noteq> [] \<longrightarrow> \<not> isspace (hd f) \<and> \<not> isspace (last f))"
    if "row \<in> set (parse_pipe text)" and "f \<in> set row" for row f
  proof -
    have eq: "strip f = f" using that by (rule parse_pipe_field_trimmed)
    show ?thesis using eq strip_hd [of f] strip_last [of f] by simp
  qed
  moreover have "\<forall>parts \<in> set (parse_pipe text). 2 \<le> length parts"
    by (simp add: parse_pipe_row_length)
  ultimately show ?thesis
    using sectors_loop_names [of "parse_pipe text" pyfloat "[]"] by simp
qed

theorem parse_pipe_rows_witness:
  "parse_pipe ex_sector_text \<noteq> [] \<and>
   list_all (\<lambda>row. 2 \<le> length row) (parse_pipe ex_sector_text) \<and>
   map sec_name (sectors_loop decimal_float (parse_pipe ex_sector_text) []) =
     [[48152, 46020, 52404], ascii ''AI'']"
proof -
  have "map sec_name (sectors_loop decimal_float (parse_pipe ex_sector_text) []) =
     filter (\<lambda>n. n \<noteq> []) (map (\<lambda>parts. parts ! 0) (parse_pipe ex_sector_text))"
    using parse_pipe_rows [of ex_sector_text decimal_float] by blast
  also have "\<dots> = [[48152, 46020, 52404], ascii ''AI'']"
    by (simp add: parse_pipe_example ascii_def)
  finally have "map sec_name (sectors_loop decimal_float (parse_pipe ex_sector_text) []) =
     [[48152, 46020, 52404], ascii ''AI'']" .
  moreover have "parse_pipe ex_sector_text \<noteq> []" by (simp add: parse_pipe_example)
  ultimately show ?thesis
    using parse_pipe_rows [of ex_sector_text decimal_float] by (simp add: list_all_iff)
qed

lemma safe_float_filter:
  "safe_float pyfloat s =
     (case pyfloat (strip (filter (\<lambda>c. c \<noteq> ch_comma \<and> c \<noteq> ch_plus \<and> c \<noteq> ch_percent) s)) of
        Some v \<Rightarrow> v
      | None \<Rightarrow> 0)"
proof -
  have "(\<lambda>c. c \<noteq> ch_percent \<and> c \<noteq> ch_plus \<and> c \<noteq> ch_comma) =
        (\<lambda>c. c \<noteq> ch_comma \<and> c \<noteq> ch_plus \<and> c \<noteq> ch_percent)" by auto
  then show ?thesis by (simp add: safe_float_def replace_remove)
qed

lemma safe_float_plus: "safe_float pyfloat (ch_plus # s) = safe_float pyfloat s"
  by (simp add: safe_float_filter)

lemma sectors_loop_map:
  "sectors_loop pyfloat rows acc =
     acc @ map (spec_sector pyfloat) (filter (\<lambda>parts. 2 \<le> length parts \<and> parts ! 0 \<noteq> []) rows)"
proof (induction rows arbitrary: acc)
  case Nil
  then show ?case by simp
next
  case (Cons parts rows)
  show ?case
  proof (cases "2 \<le> length parts \<and> parts ! 0 \<noteq> []")
    case True
    then show ?thesis
      by (simp add: Cons.IH Let_def spec_sector_def safe_float_plus safe_float_filter)
  next
    case False
    then show ?thesis using Cons.IH by auto
  qed
qed

lemma decimal_float_342: "decimal_float (ascii ''3.42'') = Some (342 / 100)"
  by (simp add: decimal_float_def ascii_def strip_def lstrip_def rstrip_def isspace_def
      startswith_any_def ch_plus_def ch_minus_def is_digit_def digits_value_def)

lemma decimal_float_084: "decimal_float (ascii ''-0.84'') = Some (- (84 / 100))"
  by (simp add: decimal_float_def ascii_def strip_def lstrip_def rstrip_def isspace_def
      startswith_any_def ch_plus_def ch_minus_def is_digit_def digits_value_def)

text \<open>
  C7, as the code has it. The sector loop emits, for each row with at least two fields
  and a name that is not empty, the entry of \<open>spec_sector\<close>: a \<open>+\<close> is put in front of
  a change that is not empty and starts with neither \<open>+\<close> nor \<open>-\<close>, and the value is
  \<open>float\<close> of the change without \<open>,\<close>, \<open>+\<close>, \<open>%\<close>, or zero when \<open>float\<close> raises. The
  change \<open>"3.42%"\<close> is stored as \<open>"+3.42%"\<close> with the value of \<open>float("3.42")\<close>, and
  \<open>"-0.84%"\<close> as it is with the value of \<open>float("-0.84")\<close>.
\<close>

theorem sectors_loop_spec:
  "sectors_loop pyfloat rows [] =
     map (spec_sector pyfloat) (filter (\<lambda>parts. 2 \<le> length parts \<and> parts ! 0 \<noteq> []) rows) \<and>
   (name \<noteq> [] \<and> pyfloat (ascii ''3.42'') = Some v \<longrightarrow>
      sectors_loop pyfloat [[name, ascii ''3.42%'']] [] =
        [\<lparr>sec_name = name, sec_change = ascii ''+3.42%'', sec_value = v\<rparr>]) \<and>
   (name \<noteq> [] \<and> pyfloat (ascii ''-0.84'') = Some w \<longrightarrow>
      sectors_loop pyfloat [[name, ascii ''-0.84%'']] [] =
        [\<lparr>sec_name = name, sec_change = ascii ''-0.84%'', sec_value = w\<rparr>])"
proof -
  have a: "strip (filter (\<lambda>c. c \<noteq> ch_comma \<and> c \<noteq> ch_plus \<and> c \<noteq> ch_percent) (ascii ''3.42%'')) =
           ascii ''3.42''"
    by (simp add: ascii_def ch_comma_def ch_plus_def ch_percent_def strip_def lstrip_def
        rstrip_def isspace_def)
  have b: "strip (filter (\<lambda>c. c \<noteq> ch_comma \<and> c \<noteq> ch_plus \<and> c \<noteq> ch_percent) (ascii ''-0.84%'')) =
           ascii ''-0.84''"
    by (simp add: ascii_def ch_comma_def ch_plus_def ch_percent_def strip_def lstrip_def
        rstrip_def isspace_def)
  have c: "ascii ''3.42%'' \<noteq> []" "\<not> startswith_any [ch_plus, ch_minus] (ascii ''3.42%'')"
    "startswith_any [ch_plus, ch_minus] (ascii ''-0.84%'')"
    "ch_plus # ascii ''3.42%'' = ascii ''+3.42%''"
    by (simp_all add: ascii_def startswith_any_def ch_plus_def ch_minus_def)
  show ?thesis
    by (simp add: sectors_loop_map spec_sector_def a b c)
qed

theorem sectors_loop_spec_witness:
  "sectors_loop decimal_float [[ascii ''S'', ascii ''3.42%'']] [] =
     [\<lparr>sec_name = ascii ''S'', sec_change = ascii ''+3.42%'', sec_value = 342 / 100\<rparr>] \<and>
   sectors_loop decimal_float [[ascii ''S'', ascii ''-0.84%'']] [] =
     [\<lparr>sec_name = ascii ''S'', sec_change = ascii ''-0.84%'', sec_value = - (84 / 100)\<rparr>]"
proof -
  have "ascii ''S'' \<noteq> []" by (simp add: ascii_def)
  then show ?thesis
    using sectors_loop_spec [of decimal_float "[]" "ascii ''S''" "342 / 100" "- (84 / 100)"]
      decimal_float_342 decimal_float_084
    by blast
qed

text \<open>
  C7 as stated fails on an empty change field: the row \<open>"X |"\<close> has two fields and a
  name, its change starts with neither \<open>+\<close> nor \<open>-\<close>, and it is stored empty, not as
  \<open>"+"\<close>.
\<close>

theorem sector_change_counterexample:
  "parse_pipe (ascii ''X |'') = [[ascii ''X'', []]] \<and>
   \<not> startswith_any [ch_plus, ch_minus] [] \<and>
   map sec_change (sectors_loop decimal_float (parse_pipe (ascii ''X |'')) []) = [[]]"
  by (simp add: parse_pipe_def ascii_def ch_nl_def ch_cr_def ch_pipe_def
      replace_def strip_def lstrip_def rstrip_def isspace_def startswith_any_def)

section \<open>Recommendations\<close>

lemma recs_loop_enumerate:
  "recs_loop i rows acc =
     acc @ map (\<lambda>(j, row). rec_of (j = 0) row)
             (filter (\<lambda>(j, row). row_name row \<noteq> []) (enumerate i rows))"
  by (induction rows arbitrary: i acc) (simp_all add: Let_def rec_of_def row_name_def del: get_prop.simps)

lemma parse_db4_rows_enumerate:
  "parse_db4_rows rows =
     map (\<lambda>(j, row). rec_of (j = 0) row)
       (filter (\<lambda>(j, row). row_name row \<noteq> []) (enumerate 0 (take 5 rows)))"
  by (cases rows) (simp_all add: parse_db4_rows_def recs_loop_enumerate del: recs_loop.simps)

lemma later_not_featured:
  "0 < i \<Longrightarrow> r \<in> set (map (\<lambda>(j, row). rec_of (j = 0) row)
       (filter (\<lambda>(j, row). row_name row \<noteq> []) (enumerate i rows))) \<Longrightarrow> \<not> rec_featured r"
  by (auto simp: rec_of_def in_set_enumerate_eq)

lemma later_names:
  "map rec_name (map (\<lambda>(j, row). rec_of (j = 0) row)
       (filter (\<lambda>(j, row). row_name row \<noteq> []) (enumerate i rows))) =
   filter (\<lambda>n. n \<noteq> []) (map row_name rows)"
  by (induction rows arbitrary: i) (simp_all add: rec_of_def)

lemma later_no_featured:
  "0 < i \<Longrightarrow> filter rec_featured (map (\<lambda>(j, row). rec_of (j = 0) row)
       (filter (\<lambda>(j, row). row_name row \<noteq> []) (enumerate i rows))) = []"
  using later_not_featured [of i _ rows] by (simp add: filter_empty_conv)

lemma row_name_named: "row_name (named_row n) = n"
  by (simp add: row_name_def named_row_def col_date_def col_stock_name_def)

lemma parse_db4_rows_names:
  "map rec_name (parse_db4_rows rows) = filter (\<lambda>n. n \<noteq> []) (map row_name (take 5 rows))"
  unfolding parse_db4_rows_enumerate by (rule later_names)

text \<open>
  C1, as the code has it. Of the rows the query returns, the first five are examined in
  order; a row with an empty name is skipped, and still counts among the five. At most
  one emitted entry is featured, and a featured entry is the one made from the first
  returned row. When the first returned row has a name, the first emitted entry is made
  from it and is the only featured one.
\<close>

theorem parse_db4_rows_featured:
  "map rec_name (parse_db4_rows rows) = filter (\<lambda>n. n \<noteq> []) (map row_name (take 5 rows)) \<and>
   length (filter rec_featured (parse_db4_rows rows)) \<le> 1 \<and>
   (\<forall>r \<in> set (parse_db4_rows rows). rec_featured r \<longrightarrow> rows \<noteq> [] \<and> r = rec_of True (hd rows)) \<and>
   (rows \<noteq> [] \<and> row_name (hd rows) \<noteq> [] \<longrightarrow>
      parse_db4_rows rows \<noteq> [] \<and> hd (parse_db4_rows rows) = rec_of True (hd rows) \<and>
      (\<forall>r \<in> set (tl (parse_db4_rows rows)). \<not> rec_featured r) \<and>
      length (filter rec_featured (parse_db4_rows rows)) = 1)"
proof (cases rows)
  case Nil
  then show ?thesis by (simp add: parse_db4_rows_def)
next
  case (Cons row rest)
  let ?tail = "map (\<lambda>(j, row). rec_of (j = 0) row)
       (filter (\<lambda>(j, row). row_name row \<noteq> []) (enumerate (Suc 0) (take 4 rest)))"
  have nf: "\<forall>r \<in> set ?tail. \<not> rec_featured r"
    using later_not_featured [of "Suc 0" _ "take 4 rest"] by blast
  have nf': "filter rec_featured ?tail = []"
    by (rule later_no_featured) simp
  have names: "map rec_name (parse_db4_rows rows) = filter (\<lambda>n. n \<noteq> []) (map row_name (take 5 rows))"
    unfolding parse_db4_rows_enumerate by (rule later_names)
  have t5: "take 5 (row # rest) = row # take 4 rest" by (simp add: take_Cons')
  show ?thesis
  proof (cases "row_name row = []")
    case True
    then have eq: "parse_db4_rows rows = ?tail"
      by (simp add: parse_db4_rows_enumerate Cons t5)
    show ?thesis using names True Cons nf nf' unfolding eq by auto
  next
    case False
    then have eq: "parse_db4_rows rows = rec_of True row # ?tail"
      by (simp add: parse_db4_rows_enumerate Cons t5)
    have "rec_featured (rec_of True row)" by (simp add: rec_of_def)
    then show ?thesis using names False Cons nf nf' unfolding eq by auto
  qed
qed

theorem parse_db4_rows_featured_witness:
  "parse_db4_rows ex_rows3 \<noteq> [] \<and> map rec_name (parse_db4_rows ex_rows3) = map row_name ex_rows3 \<and>
  rec_featured (hd (parse_db4_rows ex_rows3)) \<and>
  list_all (\<lambda>r. \<not> rec_featured r) (tl (parse_db4_rows ex_rows3)) \<and> 
  length (parse_db4_rows ex_rows3) = 3"
proof -
  have h: "ex_rows3 \<noteq> [] \<and> row_name (hd ex_rows3) \<noteq> []"
    by (simp add: ex_rows3_def row_name_named)
  have n: "filter (\<lambda>n. n \<noteq> []) (map row_name (take 5 ex_rows3)) = map row_name ex_rows3"
    by (simp add: ex_rows3_def row_name_named ascii_def)
  have "length (map rec_name (parse_db4_rows ex_rows3)) = 3"
    using parse_db4_rows_featured [of ex_rows3] unfolding n by (simp add: ex_rows3_def)
  then have "length (parse_db4_rows ex_rows3) = 3" by simp
  then show ?thesis
    using parse_db4_rows_featured [of ex_rows3] h unfolding n by (simp add: list_all_iff rec_of_def)
qed

text \<open>
  C1 as stated fails on six rows of which the first has no name: five rows have names,
  four entries are emitted, and none of them is featured.
\<close>

theorem parse_db4_rows_counterexample:
  "map rec_name (parse_db4_rows ex_rows6) = [ascii ''A'', ascii ''B'', ascii ''C'', ascii ''D''] \<and>
  filter rec_featured (parse_db4_rows ex_rows6) = [] \<and>
  filter (\<lambda>n. n \<noteq> []) (map row_name ex_rows6) = [ascii ''A'', ascii ''B'', ascii ''C'', ascii ''D'', ascii ''E'']"
proof -
  have t: "take 5 ex_rows6 = [named_row [], named_row (ascii ''A''), named_row (ascii ''B''),
      named_row (ascii ''C''), named_row (ascii ''D'')]"
    by (simp add: ex_rows6_def take_Cons')
  have "parse_db4_rows ex_rows6 = map (rec_of False) [named_row (ascii ''A''), named_row (ascii ''B''),
      named_row (ascii ''C''), named_row (ascii ''D'')]"
    unfolding parse_db4_rows_enumerate t
    by (simp add: enumerate_eq_zip row_name_named ascii_def upt_rec [of 0] upt_rec [of 1] upt_rec [of 2] upt_rec [of 3] upt_rec [of 4] upt_rec [of 5])
  then show ?thesis
    by (simp add: rec_of_def row_name_named ex_rows6_def ascii_def)
qed

section \<open>Market feed\<close>

lemma floor_rat_divide_numeral:
  "\<lfloor>numeral a / numeral b :: rat\<rfloor> = numeral a div numeral b"
  by (metis floor_divide_of_int_eq of_int_numeral)

lemma floor_rat_minus_divide_numeral:
  "\<lfloor>- (numeral a / numeral b) :: rat\<rfloor> = - numeral a div numeral b"
  by (metis divide_minus_left floor_divide_of_int_eq of_int_neg_numeral of_int_numeral)

lemmas floor_rat = floor_rat_divide_numeral floor_rat_minus_divide_numeral

lemma py_or_Num: "\<exists>q. py_or x (Num p) = Num q \<and> (q = 0 \<longrightarrow> p = 0)"
  by (cases x) (simp_all add: py_or_def)

lemma previous_close_Num:
  assumes "market_price meta = Num p"
  shows "\<exists>q. previous_close meta = Num q \<and> (q = 0 \<longrightarrow> p = 0)"
proof -
  obtain q where q: "py_or (previousClose meta) (Num p) = Num q" "q = 0 \<longrightarrow> p = 0"
    using py_or_Num by blast
  obtain r where r: "py_or (chartPreviousClose meta) (Num q) = Num r" "r = 0 \<longrightarrow> q = 0"
    using py_or_Num by blast
  from assms q r show ?thesis by (simp add: previous_close_def)
qed

lemma previous_close_select:
  assumes "market_price meta = Num p"
  shows "\<exists>q. previous_close meta = Num q \<and>
     (\<forall>c. chartPreviousClose meta = Num c \<and> c \<noteq> 0 \<longrightarrow> q = c) \<and>
     (\<forall>d. \<not> nonzero_number (chartPreviousClose meta) \<and> previousClose meta = Num d \<and> d \<noteq> 0 \<longrightarrow>
          q = d) \<and>
     (\<not> nonzero_number (chartPreviousClose meta) \<and> \<not> nonzero_number (previousClose meta) \<longrightarrow>
        q = p) \<and>
     (q = 0 \<longrightarrow> p = 0)"
  using assms
  by (cases "chartPreviousClose meta"; cases "previousClose meta")
     (auto simp: previous_close_def py_or_def nonzero_number_def)

lemma yahoo_try_ok:
  "feed symbol = Inr meta \<Longrightarrow> market_price meta = Num p \<Longrightarrow> previous_close meta = Num q \<Longrightarrow>
   yahoo_try feed pyround symbol dec =
     Inr \<lparr>price = pyround p dec, change = pyround (p - q) dec,
          pct = pyround (if q = 0 then 0 else (p - q) / q * 100) 2, pos = (0 \<le> p - q)\<rparr>"
  by (simp add: yahoo_try_def Let_def)

lemma yahoo_try_Inr:
  "yahoo_try feed pyround symbol dec = Inr qt \<Longrightarrow>
   \<exists>meta p. feed symbol = Inr meta \<and> market_price meta = Num p"
  by (auto simp: yahoo_try_def split: sum.splits field.splits)

lemma fetch_yahoo_example:
  "fetch_yahoo ex_feed round_half_even symbol 2 =
     \<lparr>price = 100, change = 5, pct = 526 / 100, pos = True\<rparr>"
  by (simp add: fetch_yahoo_def yahoo_try_def ex_feed_def market_price_def previous_close_def
      py_or_def Let_def round_half_even_def floor_rat)

lemma fetch_yahoo_example_flat:
  "fetch_yahoo ex_feed_flat round_half_even symbol 2 =
     \<lparr>price = 0, change = 0, pct = 0, pos = True\<rparr>"
  by (simp add: fetch_yahoo_def yahoo_try_def ex_feed_flat_def market_price_def
      previous_close_def py_or_def Let_def round_half_even_def)

lemma fetch_yahoo_example_zero:
  "fetch_yahoo ex_feed_zero round_half_even symbol 2 =
     \<lparr>price = 100, change = 0, pct = 0, pos = True\<rparr>"
  by (simp add: fetch_yahoo_def yahoo_try_def ex_feed_zero_def market_price_def
      previous_close_def py_or_def Let_def round_half_even_def)

text \<open>
  C9, as the code has it. A lookup succeeds exactly when the feed answers and the price
  is a number \<open>p\<close>. The previous close the quote is computed from is then a number
  \<open>q\<close> chosen from what the feed reports: the chart's previous close when that is a
  number other than zero; else the previous close when that is a number other than
  zero; else the price itself. A reported previous close of zero is passed over like a
  missing one, so \<open>q\<close> is zero only when the price is zero. The quote is: price \<open>p\<close>
  and change \<open>p - q\<close> rounded to \<open>dec\<close> decimals, pct the rounding to 2 decimals of
  \<open>(p - q) / q * 100\<close>, or of 0 when \<open>q\<close> is zero, and pos \<open>p - q \<ge> 0\<close>. In exact
  arithmetic, price 100 after a close of 95 gives change 5, pct 5.26 and pos true; price
  100 with a reported close of zero gives change 0 and pct 0; price 0 with no close
  gives change 0 and pct 0.
\<close>

theorem fetch_yahoo_quote:
  "(feed symbol = Inr meta \<and> market_price meta = Num p \<longrightarrow>
      (\<exists>q. previous_close meta = Num q \<and>
           (\<forall>c. chartPreviousClose meta = Num c \<and> c \<noteq> 0 \<longrightarrow> q = c) \<and>
           (\<forall>d. \<not> nonzero_number (chartPreviousClose meta) \<and> previousClose meta = Num d \<and>
                d \<noteq> 0 \<longrightarrow> q = d) \<and>
           (\<not> nonzero_number (chartPreviousClose meta) \<and>
            \<not> nonzero_number (previousClose meta) \<longrightarrow> q = p) \<and>
           (q = 0 \<longrightarrow> p = 0) \<and>
           yahoo_try feed pyround symbol dec =
             Inr (fetch_yahoo feed pyround symbol dec) \<and>
           fetch_yahoo feed pyround symbol dec =
             \<lparr>price = pyround p dec, change = pyround (p - q) dec,
              pct = pyround (if q = 0 then 0 else (p - q) / q * 100) 2,
              pos = (0 \<le> p - q)\<rparr>)) \<and>
   (yahoo_try feed pyround symbol dec = Inr qt \<longrightarrow>
      (\<exists>meta p. feed symbol = Inr meta \<and> market_price meta = Num p)) \<and>
   fetch_yahoo ex_feed round_half_even symbol 2 =
     \<lparr>price = 100, change = 5, pct = 526 / 100, pos = True\<rparr> \<and>
   fetch_yahoo ex_feed_zero round_half_even symbol 2 =
     \<lparr>price = 100, change = 0, pct = 0, pos = True\<rparr> \<and>
   fetch_yahoo ex_feed_flat round_half_even symbol 2 =
     \<lparr>price = 0, change = 0, pct = 0, pos = True\<rparr>"
proof -
  have "\<exists>q. previous_close meta = Num q \<and>
           (\<forall>c. chartPreviousClose meta = Num c \<and> c \<noteq> 0 \<longrightarrow> q = c) \<and>
           (\<forall>d. \<not> nonzero_number (chartPreviousClose meta) \<and> previousClose meta = Num d \<and>
                d \<noteq> 0 \<longrightarrow> q = d) \<and>
           (\<not> nonzero_number (chartPreviousClose meta) \<and>
            \<not> nonzero_number (previousClose meta) \<longrightarrow> q = p) \<and>
           (q = 0 \<longrightarrow> p = 0) \<and>
           yahoo_try feed pyround symbol dec = Inr (fetch_yahoo feed pyround symbol dec) \<and>
           fetch_yahoo feed pyround symbol dec =
             \<lparr>price = pyround p dec, change = pyround (p - q) dec,
              pct = pyround (if q = 0 then 0 else (p - q) / q * 100) 2,
              pos = (0 \<le> p - q)\<rparr>"
    if f: "feed symbol = Inr meta" and m: "market_price meta = Num p"
  proof -
    obtain q where q: "previous_close meta = Num q"
      and sel: "\<forall>c. chartPreviousClose meta = Num c \<and> c \<noteq> 0 \<longrightarrow> q = c"
        "\<forall>d. \<not> nonzero_number (chartPreviousClose meta) \<and> previousClose meta = Num d \<and>
             d \<noteq> 0 \<longrightarrow> q = d"
        "\<not> nonzero_number (chartPreviousClose meta) \<and>
         \<not> nonzero_number (previousClose meta) \<longrightarrow> q = p"
        "q = 0 \<longrightarrow> p = 0"
      using previous_close_select [OF m] by blast
    have t: "yahoo_try feed pyround symbol dec =
       Inr \<lparr>price = pyround p dec, change = pyround (p - q) dec,
            pct = pyround (if q = 0 then 0 else (p - q) / q * 100) 2, pos = (0 \<le> p - q)\<rparr>"
      using f m q by (rule yahoo_try_ok)
    then have "fetch_yahoo feed pyround symbol dec =
       \<lparr>price = pyround p dec, change = pyround (p - q) dec,
        pct = pyround (if q = 0 then 0 else (p - q) / q * 100) 2, pos = (0 \<le> p - q)\<rparr>"
      by (simp add: fetch_yahoo_def)
    with t q sel show ?thesis by (intro exI [of _ q]) simp
  qed
  moreover have "\<exists>meta p. feed symbol = Inr meta \<and> market_price meta = Num p"
    if "yahoo_try feed pyround symbol dec = Inr qt"
    using that by (rule yahoo_try_Inr)
  ultimately show ?thesis
    using fetch_yahoo_example [of symbol] fetch_yahoo_example_flat [of symbol]
      fetch_yahoo_example_zero [of symbol]
    by blast
qed

theorem fetch_yahoo_quote_witness:
  "fetch_yahoo ex_feed round_half_even (ascii ''^KS11'') 0 =
     \<lparr>price = 100, change = 5, pct = 526 / 100, pos = True\<rparr>"
proof -
  let ?meta = "\<lparr>regularMarketPrice = Num (100 :: rat), chartPreviousClose = Num 95,
                previousClose = Absent\<rparr>"
  have f: "ex_feed (ascii ''^KS11'') = Inr ?meta" by (simp add: ex_feed_def)
  have m: "market_price ?meta = Num 100" by (simp add: market_price_def)
  have c: "previous_close ?meta = Num 95" by (simp add: previous_close_def py_or_def)
  obtain q where "previous_close ?meta = Num q"
    and eq: "fetch_yahoo ex_feed round_half_even (ascii ''^KS11'') 0 =
      \<lparr>price = round_half_even 100 0, change = round_half_even (100 - q) 0,
       pct = round_half_even (if q = 0 then 0 else (100 - q) / q * 100) 2,
       pos = (0 \<le> 100 - q)\<rparr>"
    using fetch_yahoo_quote [of ex_feed "ascii ''^KS11''" ?meta 100 round_half_even 0] f m
    by blast
  with c have "q = 95" by simp
  with eq show ?thesis by (simp add: round_half_even_def Let_def floor_rat)
qed

text \<open>
  C9 as stated fails when the feed reports a previous close of zero: with price 100 the
  claim's change is 100 - 0, which rounds to 100, and the quote has change 0, since the
  zero is passed over and the price stands in for the previous close.
\<close>

theorem fetch_yahoo_zero_close_counterexample:
  "ex_feed_zero (ascii ''^KS11'') =
     Inr \<lparr>regularMarketPrice = Num 100, chartPreviousClose = Num 0, previousClose = Num 0\<rparr> \<and>
   change (fetch_yahoo ex_feed_zero round_half_even (ascii ''^KS11'') 2) = 0 \<and>
   round_half_even (100 - 0) 2 = 100 \<and>
   fetch_yahoo ex_feed_zero round_half_even (ascii ''^KS11'') 2 =
     \<lparr>price = 100, change = 0, pct = 0, pos = True\<rparr>"
  by (simp add: fetch_yahoo_def yahoo_try_def ex_feed_zero_def market_price_def
      previous_close_def py_or_def Let_def round_half_even_def)

section \<open>Pagination\<close>

lemma query_loop_serves:
  "serves api dbid body' pages \<Longrightarrow>
   body' = (if truthy cursor then body\<lparr>start_cursor := cursor\<rparr> else body) \<Longrightarrow>
   query_loop api dbid body rows cursor = Some (Inr (rows @ concat (map results pages)))"
proof (induction api dbid body' pages arbitrary: body rows cursor rule: serves.induct)
  case (1 api dbid body')
  then show ?case by simp
next
  case (2 api dbid body' pg)
  then show ?case
    by (subst query_loop.simps) (simp add: Let_def)
next
  case (3 api dbid body' pg pg' pgs)
  from "3.prems"(1) have post: "n_post api dbid body' = Inr pg" and more: "has_more pg"
    and cur: "truthy (next_cursor pg)"
    and rest: "serves api dbid (body'\<lparr>start_cursor := next_cursor pg\<rparr>) (pg' # pgs)"
    by simp_all
  have "query_loop api dbid body' (rows @ results pg) (next_cursor pg) =
        Some (Inr ((rows @ results pg) @ concat (map results (pg' # pgs))))"
    using rest cur by (intro "3.IH") simp_all
  then show ?case
    using post more "3.prems"(2) by (subst query_loop.simps) (simp add: Let_def)
qed

lemma query_by_date_serves:
  "serves api dbid (query_body date_col today_str 100) pages \<Longrightarrow>
   query_by_date api dbid date_col today_str = Some (Inr (concat (map results pages)))"
  unfolding query_by_date_def
  using query_loop_serves [of api dbid "query_body date_col today_str 100" pages None
      "query_body date_col today_str 100" "[]"]
  by (simp add: truthy_def)

lemma ex_paged_api_serves:
  "serves ex_paged_api dbid (query_body date_col today_str 100) [ex_page1, ex_page2, ex_page3]"
  by (simp add: ex_paged_api_def query_body_def ex_page1_def ex_page2_def ex_page3_def
      truthy_def ascii_def)

lemma ex_paged_api_serves_news:
  "serves ex_paged_api dbid (news_body today_str) [ex_page1, ex_page2, ex_page3]"
  by (simp add: ex_paged_api_def news_body_def ex_page1_def ex_page2_def ex_page3_def
      truthy_def ascii_def)

lemma ex_pages_rows:
  "concat (map results [ex_page1, ex_page2, ex_page3]) =
     [named_row (ascii ''A''), named_row (ascii ''B''), named_row (ascii ''C''),
      named_row (ascii ''D''), named_row (ascii ''E'')]"
  by (simp add: ex_page1_def ex_page2_def ex_page3_def)

text \<open>
  C3, as the code has it. With the exact-equals filter, \<open>query_by_date\<close> follows the
  cursors of the pages the provider serves and returns their rows concatenated in
  order, each page once. The news query, with its contains filter, is one request: it
  returns the rows of the page that answers it, whether or not that page reports more.
\<close>

theorem query_by_date_pages:
  "(serves api dbid (query_body date_col today_str 100) pages \<longrightarrow>
      query_by_date api dbid date_col today_str = Some (Inr (concat (map results pages)))) \<and>
   (n_post api dbid (news_body today_str) = Inr pg \<longrightarrow>
      query_news api dbid today_str = Inr (results pg))"
  using query_by_date_serves [of api dbid date_col today_str pages]
  by (simp add: query_news_def)

theorem query_by_date_pages_witness:
  "query_by_date ex_paged_api (ascii ''db4'') col_date (ascii ''2026-02-20'') =
     Some (Inr [named_row (ascii ''A''), named_row (ascii ''B''), named_row (ascii ''C''),
                named_row (ascii ''D''), named_row (ascii ''E'')])"
  using query_by_date_pages [of ex_paged_api "ascii ''db4''" col_date "ascii ''2026-02-20''"
      "[ex_page1, ex_page2, ex_page3]"]
    ex_paged_api_serves [of "ascii ''db4''" col_date "ascii ''2026-02-20''"]
  by (simp only: ex_pages_rows)

text \<open>
  C3 as stated fails for the contains filter: a provider that serves three pages to the
  news query, reporting more pages twice, has five rows, and the news query returns the
  two rows of the first page.
\<close>

theorem query_news_counterexample:
  "serves ex_paged_api (ascii ''db3'') (news_body (ascii ''2026-02-20''))
     [ex_page1, ex_page2, ex_page3] \<and>
   query_news ex_paged_api (ascii ''db3'') (ascii ''2026-02-20'') =
     Inr [named_row (ascii ''A''), named_row (ascii ''B'')] \<and>
   concat (map results [ex_page1, ex_page2, ex_page3]) =
     [named_row (ascii ''A''), named_row (ascii ''B''), named_row (ascii ''C''),
      named_row (ascii ''D''), named_row (ascii ''E'')]"
proof -
  have "query_news ex_paged_api (ascii ''db3'') (ascii ''2026-02-20'') =
          Inr [named_row (ascii ''A''), named_row (ascii ''B'')]"
    by (simp add: query_news_def ex_paged_api_def news_body_def ex_page1_def)
  then show ?thesis using ex_paged_api_serves_news ex_pages_rows by blast
qed

section \<open>The four tables together\<close>

lemma bind_res_Inr:
  "bind_res m f = Some (Inr y) \<longleftrightarrow> (\<exists>x. m = Some (Inr x) \<and> f x = Some (Inr y))"
  by (auto simp: bind_res_def split: option.splits sum.splits)

lemma bind_res_simps:
  "bind_res None f = None" "bind_res (Some (Inl e)) f = Some (Inl e)"
  "bind_res (Some (Inr x)) f = f x"
  by (simp_all add: bind_res_def)

lemma doc1_eq: "[k \<mapsto> x] = [k \<mapsto> y] \<longleftrightarrow> x = y"
  by (auto dest: map_upd_eqD1)

lemma doc2_eq:
  "k1 \<noteq> k2 \<Longrightarrow> [k1 \<mapsto> x1, k2 \<mapsto> x2] = [k1 \<mapsto> y1, k2 \<mapsto> y2] \<longleftrightarrow> x1 = y1 \<and> x2 = y2"
proof
  assume ne: "k1 \<noteq> k2" and eq: "[k1 \<mapsto> x1, k2 \<mapsto> x2] = [k1 \<mapsto> y1, k2 \<mapsto> y2]"
  from eq have "x2 = y2" by (rule map_upd_eqD1)
  moreover from eq have "[k1 \<mapsto> x1, k2 \<mapsto> x2] k1 = [k1 \<mapsto> y1, k2 \<mapsto> y2] k1" by simp
  with ne have "x1 = y1" by simp
  ultimately show "x1 = y1 \<and> x2 = y2" by simp
qed simp

lemma parse_db1_rows_shape:
  "\<exists>s m. parse_db1_rows rows = [''summary'' \<mapsto> VStrList s, ''market_strength'' \<mapsto> VStr m]"
  unfolding parse_db1_rows_def Let_def by (cases rows) (simp_all only: list.case, blast+)

lemma parse_db2_rows_shape:
  "\<exists>a b. parse_db2_rows pyfloat rows = [''sectors'' \<mapsto> VSectors a, ''stocks'' \<mapsto> VStocks b]"
  unfolding parse_db2_rows_def Let_def by (cases rows) (simp_all only: list.case, blast+)

lemma news_loop_map:
  "news_loop ls acc =
     acc @ map (\<lambda>h. \<lparr>news_time = [], news_headline = h, news_summary = [], news_tag = []\<rparr>)
             (filter (\<lambda>l. l \<noteq> []) (map (\<lambda>l. lstrip_chars enum_chars (strip l)) ls))"
  by (induction ls arbitrary: acc) (simp_all add: Let_def)

lemma lstrip_chars_hd: "lstrip_chars cs s \<noteq> [] \<Longrightarrow> hd (lstrip_chars cs s) \<notin> set cs"
  unfolding lstrip_chars_def using hd_dropWhile [of "\<lambda>c. c \<in> set cs" s] by simp

lemma news_loop_ok: "n \<in> set (news_loop ls []) \<Longrightarrow> news_ok n"
  by (auto simp: news_loop_map news_ok_def lstrip_chars_hd)

lemma parse_db3_shape:
  "\<exists>ns. (parse_db3 api dbid today_str :: 'n doc) = [''news'' \<mapsto> VNews ns] \<and>
        (\<forall>n \<in> set ns. news_ok n)"
proof (cases "query_news api dbid today_str")
  case (Inl e)
  then have "(parse_db3 api dbid today_str :: 'n doc) = [''news'' \<mapsto> VNews []]"
    by (simp add: parse_db3_def)
  then show ?thesis by (intro exI [of _ "[]"]) simp
next
  case (Inr rows)
  show ?thesis
  proof (cases rows)
    case Nil
    with Inr have "(parse_db3 api dbid today_str :: 'n doc) = [''news'' \<mapsto> VNews []]"
      by (simp add: parse_db3_def)
    then show ?thesis by (intro exI [of _ "[]"]) simp
  next
    case (Cons row rest)
    show ?thesis
    proof (cases "strip (get_prop row col_ai_news_summary PT_rich_text) = []")
      case True
      with Inr Cons have "(parse_db3 api dbid today_str :: 'n doc) = [''news'' \<mapsto> VNews []]"
        by (simp add: parse_db3_def del: get_prop.simps)
      then show ?thesis by (intro exI [of _ "[]"]) simp
    next
      case False
      let ?ns = "news_loop (split ch_nl (replace ch_cr []
                   (strip (get_prop row col_ai_news_summary PT_rich_text)))) []"
      from False Inr Cons
      have "(parse_db3 api dbid today_str :: 'n doc) = [''news'' \<mapsto> VNews ?ns]"
        by (simp add: parse_db3_def Let_def del: get_prop.simps)
      then show ?thesis using news_loop_ok by (intro exI [of _ ?ns]) blast
    qed
  qed
qed

lemma table1_shape:
  assumes "table1 api dbs today_str = Some (Inr (r :: 'n doc))"
  shows "\<exists>s m. r = [''summary'' \<mapsto> VStrList s, ''market_strength'' \<mapsto> VStr m] \<and>
               (length dbs < 1 \<longrightarrow> s = [] \<and> m = [])"
proof (cases "1 \<le> length dbs")
  case True
  with assms obtain rows where "r = parse_db1_rows rows"
    by (auto simp: table1_def parse_db1_def bind_res_Inr)
  moreover obtain s m where
    "(parse_db1_rows rows :: 'n doc) = [''summary'' \<mapsto> VStrList s, ''market_strength'' \<mapsto> VStr m]"
    using parse_db1_rows_shape by blast
  ultimately show ?thesis using True by (intro exI [of _ s] exI [of _ m]) auto
next
  case False
  with assms have "r = [''summary'' \<mapsto> VStrList [], ''market_strength'' \<mapsto> VStr []]"
    by (simp add: table1_def)
  then show ?thesis by blast
qed

lemma table2_shape:
  assumes "table2 pyfloat api dbs today_str = Some (Inr r)"
  shows "\<exists>a b. r = [''sectors'' \<mapsto> VSectors a, ''stocks'' \<mapsto> VStocks b] \<and>
               (length dbs < 2 \<longrightarrow> a = [] \<and> b = [])"
proof (cases "2 \<le> length dbs")
  case True
  with assms obtain rows where "r = parse_db2_rows pyfloat rows"
    by (auto simp: table2_def parse_db2_def bind_res_Inr)
  moreover obtain a b where
    "parse_db2_rows pyfloat rows = [''sectors'' \<mapsto> VSectors a, ''stocks'' \<mapsto> VStocks b]"
    using parse_db2_rows_shape by blast
  ultimately show ?thesis using True by (intro exI [of _ a] exI [of _ b]) auto
next
  case False
  with assms have "r = [''sectors'' \<mapsto> VSectors [], ''stocks'' \<mapsto> VStocks []]"
    by (simp add: table2_def)
  then show ?thesis by blast
qed

lemma table3_shape:
  "\<exists>ns. (table3 api dbs today_str :: (exn + 'n doc) option) = Some (Inr [''news'' \<mapsto> VNews ns]) \<and>
        (\<forall>n \<in> set ns. news_ok n) \<and> (length dbs < 3 \<longrightarrow> ns = [])"
proof (cases "3 \<le> length dbs")
  case True
  obtain ns where
    "(parse_db3 api (db_id (dbs ! 2)) today_str :: 'n doc) = [''news'' \<mapsto> VNews ns]"
    and "\<forall>n \<in> set ns. news_ok n"
    using parse_db3_shape by blast
  with True show ?thesis by (intro exI [of _ ns]) (simp add: table3_def)
next
  case False
  then show ?thesis by (intro exI [of _ "[]"]) (simp add: table3_def)
qed

lemma table4_shape:
  assumes "table4 api dbs today_str = Some (Inr (r :: 'n doc))"
  shows "\<exists>rs. r = [''recommendations'' \<mapsto> VRecs rs] \<and> (length dbs < 4 \<longrightarrow> rs = sample_rec)"
proof (cases "4 \<le> length dbs")
  case True
  with assms show ?thesis by (auto simp: table4_def parse_db4_def bind_res_Inr)
next
  case False
  with assms have "r = [''recommendations'' \<mapsto> VRecs sample_rec]" by (simp add: table4_def)
  then show ?thesis by blast
qed

lemma fetch_notion_Inr:
  "fetch_notion pyfloat api page_id today_str = Some (Inr r) \<longleftrightarrow>
   (\<exists>dbs r1 r2 r3 r4.
      get_child_dbs api page_id = Some (Inr dbs) \<and>
      table1 api dbs today_str = Some (Inr r1) \<and>
      table2 pyfloat api dbs today_str = Some (Inr r2) \<and>
      table3 api dbs today_str = Some (Inr r3) \<and>
      table4 api dbs today_str = Some (Inr r4) \<and>
      r = Map.empty ++ r1 ++ r2 ++ r3 ++ r4)"
  unfolding fetch_notion_def bind_res_Inr by (simp only: option.inject sum.inject) blast

lemma fetch_notion_result:
  assumes "fetch_notion pyfloat api page_id today_str = Some (Inr (r :: 'n::zero doc))"
  shows "\<exists>dbs s m a b ns rs.
     get_child_dbs api page_id = Some (Inr dbs) \<and>
     r = notion_doc s m a b ns rs \<and>
     (table1 api dbs today_str :: (exn + 'n doc) option) =
       Some (Inr [''summary'' \<mapsto> VStrList s, ''market_strength'' \<mapsto> VStr m]) \<and>
     table2 pyfloat api dbs today_str =
       Some (Inr [''sectors'' \<mapsto> VSectors a, ''stocks'' \<mapsto> VStocks b]) \<and>
     (table3 api dbs today_str :: (exn + 'n doc) option) = Some (Inr [''news'' \<mapsto> VNews ns]) \<and>
     (table4 api dbs today_str :: (exn + 'n doc) option) =
       Some (Inr [''recommendations'' \<mapsto> VRecs rs]) \<and>
     (length dbs < 1 \<longrightarrow> s = [] \<and> m = []) \<and>
     (length dbs < 2 \<longrightarrow> a = [] \<and> b = []) \<and>
     (length dbs < 3 \<longrightarrow> ns = []) \<and>
     (length dbs < 4 \<longrightarrow> rs = sample_rec) \<and>
     (\<forall>n \<in> set ns. news_ok n)"
proof -
  from assms obtain dbs r1 r2 r3 r4 where
    dbs: "get_child_dbs api page_id = Some (Inr dbs)"
    and r1: "table1 api dbs today_str = Some (Inr r1)"
    and r2: "table2 pyfloat api dbs today_str = Some (Inr r2)"
    and r3: "table3 api dbs today_str = Some (Inr r3)"
    and r4: "table4 api dbs today_str = Some (Inr r4)"
    and r: "r = Map.empty ++ r1 ++ r2 ++ r3 ++ r4"
    unfolding fetch_notion_Inr by blast
  obtain s m where s: "r1 = [''summary'' \<mapsto> VStrList s, ''market_strength'' \<mapsto> VStr m]"
    "length dbs < 1 \<longrightarrow> s = [] \<and> m = []"
    using table1_shape [OF r1] by blast
  obtain a b where a: "r2 = [''sectors'' \<mapsto> VSectors a, ''stocks'' \<mapsto> VStocks b]"
    "length dbs < 2 \<longrightarrow> a = [] \<and> b = []"
    using table2_shape [OF r2] by blast
  obtain ns where
    ns: "(table3 api dbs today_str :: (exn + 'n doc) option) = Some (Inr [''news'' \<mapsto> VNews ns])"
    "\<forall>n \<in> set ns. news_ok n" "length dbs < 3 \<longrightarrow> ns = []"
    using table3_shape [of api dbs today_str] by blast
  from ns(1) r3 have r3': "r3 = [''news'' \<mapsto> VNews ns]" by simp
  obtain rs where rs: "r4 = [''recommendations'' \<mapsto> VRecs rs]"
    "length dbs < 4 \<longrightarrow> rs = sample_rec"
    using table4_shape [OF r4] by blast
  have "r = notion_doc s m a b ns rs"
    unfolding r s(1) a(1) r3' rs(1) notion_doc_def by simp
  with dbs r1 r2 r4 s a ns rs show ?thesis by blast
qed

section \<open>The example provider\<close>

lemma ex_child_dbs4: "map child_db_of ex_blocks = ex_dbs"
  by (simp add: ex_blocks_def ex_dbs_def child_db_of_def replace_def ch_minus_def ascii_def)

lemma ex_get_child_dbs: "get_child_dbs (ex_api n failing) page_id = Some (Inr (take n ex_dbs))"
proof -
  have "filter (\<lambda>b. block_type b = ascii ''child_database'') (take n ex_blocks) = take n ex_blocks"
    by (rule filter_True) (auto simp: ex_blocks_def dest!: in_set_takeD)
  then show ?thesis
    by (simp add: get_child_dbs_def child_dbs_loop.simps ex_api_def Let_def take_map ex_child_dbs4 [symmetric])
qed

lemma ex_query:
  "dbid \<noteq> failing \<Longrightarrow>
   query_by_date (ex_api n failing) dbid date_col today_str = Some (Inr (ex_table dbid))"
  by (simp add: query_by_date_def query_loop.simps ex_api_def Let_def truthy_def)

lemma ex_query_fails:
  "query_by_date (ex_api n failing) failing date_col today_str = Some (Inl TransportError)"
  by (simp add: query_by_date_def query_loop.simps ex_api_def Let_def truthy_def)

lemma ex_db1: "parse_db1_rows (ex_table (ascii ''db1'')) =
   [''summary'' \<mapsto> VStrList [ascii ''A'', ascii ''B''], ''market_strength'' \<mapsto> VStr [44053, 49464]]"
proof -
  have t: "ex_table (ascii ''db1'') = [ex_row1]" by (simp add: ex_table_def)
  have g: "get_prop ex_row1 col_ai_summary PT_rich_text = ex_summary_text"
    "get_prop ex_row1 col_market_strength PT_select = [44053, 49464]"
    by (simp_all add: ex_row1_def col_date_def col_market_strength_def col_ai_summary_def)
  have "segment_lines ex_summary_text = [ascii ''A'', ascii ''B'']"
    by (simp add: ex_summary_text_def segment_lines_def ascii_def ch_nl_def ch_cr_def replace_def
        strip_def lstrip_def rstrip_def lstrip_chars_def enum_chars_def isspace_def)
  then show ?thesis
    unfolding t parse_db1_rows_def by (simp add: g Let_def del: get_prop.simps)
qed

lemma ex_db2: "parse_db2_rows decimal_float (ex_table (ascii ''db2'')) =
   [''sectors'' \<mapsto> VSectors ex_sectors, ''stocks'' \<mapsto> VStocks ex_stocks]"
proof -
  have t: "ex_table (ascii ''db2'') = [ex_row2]" by (simp add: ex_table_def ascii_def)
  have g: "get_prop ex_row2 col_lead_sectors PT_rich_text = ascii ''S | 3.42%''"
    "get_prop ex_row2 col_notable_stocks PT_rich_text = ex_stocks_text"
    by (simp_all add: ex_row2_def col_stock_name_def col_lead_sectors_def col_notable_stocks_def ascii_def)
  have a: "parse_pipe (ascii ''S | 3.42%'') = [[ascii ''S'', ascii ''3.42%'']]"
    by (simp add: parse_pipe_def ascii_def ch_nl_def ch_cr_def ch_pipe_def
      replace_def strip_def lstrip_def rstrip_def isspace_def)
  have b: "parse_pipe ex_stocks_text = [[ascii ''X'', ascii ''r'', ascii ''1,000'', ascii ''-1%'']]"
    by (simp add: ex_stocks_text_def parse_pipe_def ascii_def ch_nl_def ch_cr_def ch_pipe_def
      replace_def strip_def lstrip_def rstrip_def isspace_def)
  have "spec_sector decimal_float [ascii ''S'', ascii ''3.42%''] =
      \<lparr>sec_name = ascii ''S'', sec_change = ascii ''+3.42%'', sec_value = 342 / 100\<rparr>"
  proof -
    have "strip (filter (\<lambda>c. c \<noteq> ch_comma \<and> c \<noteq> ch_plus \<and> c \<noteq> ch_percent) (ascii ''3.42%'')) =
           ascii ''3.42''"
      by (simp add: ascii_def ch_comma_def ch_plus_def ch_percent_def strip_def lstrip_def
          rstrip_def isspace_def)
    moreover have "ascii ''3.42%'' \<noteq> []" "\<not> startswith_any [ch_plus, ch_minus] (ascii ''3.42%'')"
      "ch_plus # ascii ''3.42%'' = ascii ''+3.42%''"
      by (simp_all add: ascii_def startswith_any_def ch_plus_def ch_minus_def)
    ultimately show ?thesis by (simp add: spec_sector_def decimal_float_342)
  qed
  then have c: "sectors_loop decimal_float [[ascii ''S'', ascii ''3.42%'']] [] = ex_sectors"
    by (simp add: sectors_loop_map ex_sectors_def ascii_def)
  have d: "stocks_loop [[ascii ''X'', ascii ''r'', ascii ''1,000'', ascii ''-1%'']] [] = ex_stocks"
    by (simp add: ex_stocks_def ascii_def Let_def startswith_any_def strip_def lstrip_def rstrip_def
        isspace_def ch_minus_def)
  show ?thesis
    unfolding t parse_db2_rows_def by (simp add: g a b c d Let_def del: get_prop.simps sectors_loop.simps stocks_loop.simps)
qed

lemma ex_db3:
  assumes "failing \<noteq> ascii ''db3''"
  shows "parse_db3 (ex_api n failing) (ascii ''db3'') today_str = [''news'' \<mapsto> VNews ex_news]"
proof -
  have q: "query_news (ex_api n failing) (ascii ''db3'') today_str = Inr [ex_row3]"
    using assms by (auto simp: query_news_def ex_api_def ex_table_def ascii_def)
  have g: "get_prop ex_row3 col_ai_news_summary PT_rich_text = ex_news_text"
    by (simp add: ex_row3_def col_news_title_def col_ai_news_summary_def)
  have s: "strip ex_news_text = ex_news_text"
    by (simp add: ex_news_text_def ascii_def ch_nl_def strip_def lstrip_def rstrip_def isspace_def)
  have n: "news_loop (split ch_nl (replace ch_cr [] ex_news_text)) [] = ex_news"
    by (simp add: ex_news_text_def ex_news_def ascii_def ch_nl_def ch_cr_def replace_def strip_def
      lstrip_def rstrip_def lstrip_chars_def enum_chars_def isspace_def)
  have ne: "ex_news_text \<noteq> []" by (simp add: ex_news_text_def ascii_def)
  show ?thesis
    unfolding parse_db3_def q by (simp add: g s n ne Let_def del: get_prop.simps)
qed

lemma ex_db4: "parse_db4_rows (ex_table (ascii ''db4'')) = ex_recs"
proof -
  have "ex_table (ascii ''db4'') = ex_rows3" by (simp add: ex_table_def ascii_def)
  moreover have "parse_db4_rows ex_rows3 = ex_recs"
    unfolding parse_db4_rows_enumerate
    by (simp add: ex_rows3_def ex_recs_def enumerate_eq_zip row_name_named upt_rec [of 0] upt_rec [of 1] upt_rec [of 2] upt_rec [of 3] ascii_def)
  ultimately show ?thesis by simp
qed

section \<open>The run\<close>

lemma main_unconfigured:
  "env_NOTION_TOKEN e = [] \<or> NOTION_PAGE_ID e = [] \<Longrightarrow>
   main pyfloat pyround e api feed = Some (run_doc e SAMPLE_NOTION (fetch_indices feed pyround))"
  by (auto simp: main_def run_doc_def Let_def)

lemma main_raise:
  "fetch_notion pyfloat api (NOTION_PAGE_ID e) (today e) = Some (Inl ex) \<Longrightarrow>
   main pyfloat pyround e api feed = Some (run_doc e SAMPLE_NOTION (fetch_indices feed pyround))"
  by (auto simp: main_def run_doc_def Let_def)

lemma main_ok:
  "env_NOTION_TOKEN e \<noteq> [] \<Longrightarrow> NOTION_PAGE_ID e \<noteq> [] \<Longrightarrow>
   fetch_notion pyfloat api (NOTION_PAGE_ID e) (today e) = Some (Inr r) \<Longrightarrow>
   main pyfloat pyround e api feed = Some (run_doc e r (fetch_indices feed pyround))"
  by (simp add: main_def run_doc_def Let_def)

lemma main_Some:
  assumes "main pyfloat pyround e api feed = Some out"
  shows "out = run_doc e SAMPLE_NOTION (fetch_indices feed pyround) \<or>
         (\<exists>r. env_NOTION_TOKEN e \<noteq> [] \<and> NOTION_PAGE_ID e \<noteq> [] \<and>
              fetch_notion pyfloat api (NOTION_PAGE_ID e) (today e) = Some (Inr r) \<and>
              out = run_doc e r (fetch_indices feed pyround))"
  using assms
  by (auto simp: main_def run_doc_def Let_def split: if_splits option.splits sum.splits)

lemma fetch_notion_discovery_raises:
  "n_get api page_id None = Inl ex \<Longrightarrow>
   fetch_notion pyfloat api page_id today_str = Some (Inl ex)"
  by (simp add: fetch_notion_def get_child_dbs_def child_dbs_loop.simps truthy_def bind_res_def)

lemma SAMPLE_NOTION_doc:
  "SAMPLE_NOTION =
     notion_doc sample_summary sample_market_strength sample_sectors sample_stocks sample_news
       sample_rec"
  by (simp add: SAMPLE_NOTION_def notion_doc_def)

lemma run_doc_types:
  "map_option val_type (run_doc e (notion_doc s m a b ns rs) ix k) = map_of doc_schema k"
  by (simp add: run_doc_def notion_doc_def doc_schema_def)

lemma fetch_indices_keys: "map fst (fetch_indices feed pyround) = map fst TARGETS"
  by (simp add: fetch_indices_def TARGETS_def)

lemma fetch_yahoo_down: "feed symbol = Inl ex \<Longrightarrow> fetch_yahoo feed pyround symbol dec = zero_quote"
  by (simp add: fetch_yahoo_def yahoo_try_def zero_quote_def)

lemma fetch_indices_down:
  assumes "\<And>symbol. \<exists>ex. feed symbol = Inl ex"
  shows "fetch_indices feed pyround = map (\<lambda>key. (key, zero_quote)) (map fst TARGETS)"
proof -
  have "fetch_yahoo feed pyround symbol dec = zero_quote" for symbol dec
    using assms [of symbol] fetch_yahoo_down by blast
  then show ?thesis by (simp add: fetch_indices_def TARGETS_def)
qed

lemma main_schema:
  assumes "main pyfloat pyround e api feed = Some out"
  shows "map_option val_type (out k) = map_of doc_schema k"
    and "out ''indices'' = Some (VIndices (fetch_indices feed pyround))"
proof -
  have "\<exists>s m a b ns rs.
      out = run_doc e (notion_doc s m a b ns rs) (fetch_indices feed pyround)"
    using main_Some [OF assms]
  proof
    assume "out = run_doc e SAMPLE_NOTION (fetch_indices feed pyround)"
    then show ?thesis unfolding SAMPLE_NOTION_doc by blast
  next
    assume "\<exists>r. env_NOTION_TOKEN e \<noteq> [] \<and> NOTION_PAGE_ID e \<noteq> [] \<and>
              fetch_notion pyfloat api (NOTION_PAGE_ID e) (today e) = Some (Inr r) \<and>
              out = run_doc e r (fetch_indices feed pyround)"
    then obtain r where f: "fetch_notion pyfloat api (NOTION_PAGE_ID e) (today e) = Some (Inr r)"
      and o: "out = run_doc e r (fetch_indices feed pyround)" by blast
    from fetch_notion_result [OF f] obtain s m a b ns rs where "r = notion_doc s m a b ns rs"
      by blast
    with o show ?thesis by blast
  qed
  then obtain s m a b ns rs where
    out: "out = run_doc e (notion_doc s m a b ns rs) (fetch_indices feed pyround)"
    by blast
  show "map_option val_type (out k) = map_of doc_schema k"
    unfolding out by (rule run_doc_types)
  show "out ''indices'' = Some (VIndices (fetch_indices feed pyround))"
    unfolding out by (simp add: run_doc_def)
qed

lemma ex_env_simps:
  "env_NOTION_TOKEN ex_env \<noteq> []" "NOTION_PAGE_ID ex_env = ascii ''page1''"
  "NOTION_PAGE_ID ex_env \<noteq> []" "today ex_env = ex_today"
  "env_NOTION_TOKEN ex_env_unset = []"
  by (simp_all add: ex_env_def ex_env_unset_def NOTION_PAGE_ID_def replace_def ch_minus_def ascii_def)

lemma ex_dbs_nth:
  "db_id (ex_dbs ! 0) = ascii ''db1''" "db_id (ex_dbs ! Suc 0) = ascii ''db2''"
  "db_id (ex_dbs ! 2) = ascii ''db3''" "db_id (ex_dbs ! 3) = ascii ''db4''"
  "length ex_dbs = 4"
  by (simp_all add: ex_dbs_def)

lemma ex_ids_distinct:
  "ascii ''db1'' \<noteq> []" "ascii ''db2'' \<noteq> []" "ascii ''db3'' \<noteq> []" "ascii ''db4'' \<noteq> []"
  "ascii ''db2'' \<noteq> ascii ''db1''" "ascii ''db3'' \<noteq> ascii ''db1''" "ascii ''db4'' \<noteq> ascii ''db1''"
  by (simp_all add: ascii_def)

lemma ex_table1:
  assumes "1 \<le> n" "n \<le> 4" "failing \<noteq> ascii ''db1''"
  shows "table1 (ex_api n failing) (take n ex_dbs) today_str =
    Some (Inr [''summary'' \<mapsto> VStrList [ascii ''A'', ascii ''B''], ''market_strength'' \<mapsto> VStr [44053, 49464]])"
  using assms
  by (simp add: table1_def parse_db1_def bind_res_def ex_query ex_db1 ex_dbs_nth)

lemma ex_table1_fails:
  assumes "1 \<le> n" "n \<le> 4"
  shows "(table1 (ex_api n (ascii ''db1'')) (take n ex_dbs) today_str :: (exn + rat doc) option) =
    Some (Inl TransportError)"
  using assms
  by (simp add: table1_def parse_db1_def bind_res_def ex_query_fails ex_dbs_nth)

lemma ex_table2:
  assumes "2 \<le> n" "n \<le> 4" "failing \<noteq> ascii ''db2''"
  shows "table2 decimal_float (ex_api n failing) (take n ex_dbs) today_str =
    Some (Inr [''sectors'' \<mapsto> VSectors ex_sectors, ''stocks'' \<mapsto> VStocks ex_stocks])"
  using assms
  by (simp add: table2_def parse_db2_def bind_res_def ex_query ex_db2 ex_dbs_nth)

lemma ex_table3:
  assumes "3 \<le> n" "n \<le> 4" "failing \<noteq> ascii ''db3''"
  shows "table3 (ex_api n failing) (take n ex_dbs) today_str = Some (Inr [''news'' \<mapsto> VNews ex_news])"
  using assms
  by (simp add: table3_def ex_db3 ex_dbs_nth)

lemma ex_table4:
  assumes "failing \<noteq> ascii ''db4''"
  shows "table4 (ex_api 4 failing) (take 4 ex_dbs) today_str =
     Some (Inr [''recommendations'' \<mapsto> VRecs ex_recs])"
  using assms
  by (simp add: table4_def parse_db4_def bind_res_def ex_query ex_db4 ex_dbs_nth)


lemma ex_fetch_notion4:
  "fetch_notion decimal_float (ex_api 4 []) page_id today_str = Some (Inr (ex_notion_doc ex_recs))"
  by (simp add: fetch_notion_def ex_get_child_dbs bind_res_simps ex_table1 ex_table2 ex_table3
      ex_table4 ex_ids_distinct [symmetric] ex_notion_doc_def notion_doc_def)


lemma ex_fetch_notion_fails:
  "(fetch_notion decimal_float (ex_api 4 (ascii ''db1'')) page_id today_str) = Some (Inl TransportError)"
  by (simp add: fetch_notion_def ex_get_child_dbs bind_res_simps ex_table1_fails)

lemma ex_indices_down:
  "fetch_indices ex_feed_down round_half_even =
     [(''kospi'', zero_quote), (''kosdaq'', zero_quote), (''sp500'', zero_quote),
      (''nasdaq'', zero_quote), (''usdkrw'', zero_quote), (''us10y'', zero_quote),
      (''wti'', zero_quote), (''gold'', zero_quote)]"
  by (simp add: fetch_indices_def TARGETS_def fetch_yahoo_down ex_feed_down_def)


section \<open>News items\<close>

lemma sample_news_fields:
  "n \<in> set sample_news \<Longrightarrow> news_summary n = [] \<and> news_headline n \<noteq> []"
  by (auto simp: sample_news_def)

lemma run_doc_news: "run_doc e (notion_doc s m a b ns rs) ix ''news'' = Some (VNews ns)"
  by (simp add: run_doc_def notion_doc_def)

lemma main_news:
  assumes "main pyfloat pyround e api feed = Some out"
  shows "\<exists>ns. out ''news'' = Some (VNews ns) \<and> (ns = sample_news \<or> (\<forall>n \<in> set ns. news_ok n))"
  using main_Some [OF assms]
proof
  assume "out = run_doc e SAMPLE_NOTION (fetch_indices feed pyround)"
  then have "out ''news'' = Some (VNews sample_news)"
    unfolding SAMPLE_NOTION_doc by (simp add: run_doc_news)
  then show ?thesis by blast
next
  assume "\<exists>r. env_NOTION_TOKEN e \<noteq> [] \<and> NOTION_PAGE_ID e \<noteq> [] \<and>
            fetch_notion pyfloat api (NOTION_PAGE_ID e) (today e) = Some (Inr r) \<and>
            out = run_doc e r (fetch_indices feed pyround)"
  then obtain r where f: "fetch_notion pyfloat api (NOTION_PAGE_ID e) (today e) = Some (Inr r)"
    and o: "out = run_doc e r (fetch_indices feed pyround)" by blast
  from fetch_notion_result [OF f] obtain s m a b ns rs where
    "r = notion_doc s m a b ns rs" "\<forall>n \<in> set ns. news_ok n"
    by blast
  with o have "out ''news'' = Some (VNews ns)" by (simp add: run_doc_news)
  with \<open>\<forall>n \<in> set ns. news_ok n\<close> show ?thesis by blast
qed

text \<open>
  C6, as the code has it. Every item the news normalizer emits has an empty time,
  summary and tag, and a headline that is not empty and starts with no enumeration
  character. In the document of a run, every news item has an empty summary and a
  headline that is not empty; the items are either the sample news, which carry a time
  and a tag, or items with empty time and tag.
\<close>

theorem news_items_shape:
  "(\<exists>ns. (parse_db3 api dbid today_str :: 'n doc) = [''news'' \<mapsto> VNews ns] \<and>
         (\<forall>n \<in> set ns. news_ok n)) \<and>
   (main pyfloat pyround e api feed = Some (out :: 'n::{zero,numeral,uminus,minus,times,inverse,ord} doc) \<longrightarrow>
      (\<exists>ns. out ''news'' = Some (VNews ns) \<and>
            (\<forall>n \<in> set ns. news_summary n = [] \<and> news_headline n \<noteq> []) \<and>
            (ns = sample_news \<or> (\<forall>n \<in> set ns. news_ok n))))"
proof -
  have "\<exists>ns. out ''news'' = Some (VNews ns) \<and>
            (\<forall>n \<in> set ns. news_summary n = [] \<and> news_headline n \<noteq> []) \<and>
            (ns = sample_news \<or> (\<forall>n \<in> set ns. news_ok n))"
    if "main pyfloat pyround e api feed = Some out"
  proof -
    from main_news [OF that] obtain ns where ns: "out ''news'' = Some (VNews ns)"
      "ns = sample_news \<or> (\<forall>n \<in> set ns. news_ok n)" by blast
    from ns(2) have "\<forall>n \<in> set ns. news_summary n = [] \<and> news_headline n \<noteq> []"
      using sample_news_fields by (auto simp: news_ok_def)
    with ns show ?thesis by blast
  qed
  then show ?thesis using parse_db3_shape [of api dbid today_str] by blast
qed

lemma ex_main4:
  "main decimal_float round_half_even ex_env (ex_api 4 []) ex_feed =
     Some (run_doc ex_env (ex_notion_doc ex_recs) (fetch_indices ex_feed round_half_even))"
  by (rule main_ok) (simp_all add: ex_env_simps ex_fetch_notion4 ascii_def)

lemma ex_news_not_sample: "ex_news \<noteq> sample_news"
  by (simp add: ex_news_def sample_news_def)

theorem news_items_shape_witness:
  "main decimal_float round_half_even ex_env (ex_api 4 []) ex_feed =
     Some (run_doc ex_env (ex_notion_doc ex_recs) (fetch_indices ex_feed round_half_even)) \<and>
   run_doc ex_env (ex_notion_doc ex_recs) (fetch_indices ex_feed round_half_even) ''news'' =
     Some (VNews ex_news) \<and>
   list_all news_ok ex_news \<and> length ex_news = 2"
proof -
  let ?out = "run_doc ex_env (ex_notion_doc ex_recs) (fetch_indices ex_feed round_half_even)"
  have n: "?out ''news'' = Some (VNews ex_news)"
    by (simp add: ex_notion_doc_def run_doc_news)
  obtain ns where "?out ''news'' = Some (VNews ns)"
    and "ns = sample_news \<or> (\<forall>n \<in> set ns. news_ok n)"
    using news_items_shape [of "ex_api 4 []" "[]" "[]" decimal_float round_half_even ex_env ex_feed ?out]
      ex_main4 by blast
  with n ex_news_not_sample have "\<forall>n \<in> set ex_news. news_ok n" by auto
  then show ?thesis using ex_main4 n by (simp add: list_all_iff ex_news_def)
qed

text \<open>
  C6 as stated fails on the fallback of the whole pipeline: a run without a token emits
  the sample news, whose items carry times and whose first item carries a tag.
\<close>

theorem sample_news_counterexample:
  "main decimal_float round_half_even ex_env_unset (ex_api 4 []) ex_feed =
     Some (run_doc ex_env_unset SAMPLE_NOTION (fetch_indices ex_feed round_half_even)) \<and>
   run_doc ex_env_unset SAMPLE_NOTION (fetch_indices ex_feed round_half_even) ''news'' =
     Some (VNews sample_news) \<and>
   map news_time sample_news =
     [ascii ''09:02'', ascii ''10:15'', ascii ''11:33'', ascii ''13:47''] \<and>
   news_tag (hd sample_news) = [53685, 54868, 51221, 52293]"
proof -
  have "main decimal_float round_half_even ex_env_unset (ex_api 4 []) ex_feed =
     Some (run_doc ex_env_unset SAMPLE_NOTION (fetch_indices ex_feed round_half_even))"
    by (rule main_unconfigured) (simp add: ex_env_simps)
  moreover have "run_doc ex_env_unset SAMPLE_NOTION (fetch_indices ex_feed round_half_even) ''news'' =
     Some (VNews sample_news)"
    unfolding SAMPLE_NOTION_doc by (rule run_doc_news)
  moreover have "map news_time sample_news =
     [ascii ''09:02'', ascii ''10:15'', ascii ''11:33'', ascii ''13:47'']"
    "news_tag (hd sample_news) = [53685, 54868, 51221, 52293]"
    by (simp_all add: sample_news_def)
  ultimately show ?thesis by blast
qed

section \<open>The schema of the document\<close>

lemma dom_schema:
  assumes "\<And>k. map_option val_type (out k) = map_of doc_schema k"
  shows "dom out = set (map fst doc_schema)"
proof -
  have *: "out k = None \<longleftrightarrow> k \<notin> set (map fst doc_schema)" for k
  proof -
    have "(out k = None) = (map_of doc_schema k = None)"
      using assms [of k] by (metis option.map_disc_iff)
    then show ?thesis by (simp add: map_of_eq_None_iff)
  qed
  show ?thesis
  proof (rule set_eqI)
    fix k show "k \<in> dom out \<longleftrightarrow> k \<in> set (map fst doc_schema)"
      using * [of k] by (simp only: dom_def mem_Collect_eq) blast
  qed
qed

text \<open>
  C4. The document a run hands to the writer has exactly the nine keys \<open>updated_at\<close>,
  \<open>updated_kst\<close>, \<open>summary\<close>, \<open>market_strength\<close>, \<open>sectors\<close>, \<open>stocks\<close>, \<open>news\<close>,
  \<open>recommendations\<close> and \<open>indices\<close>, each with a value of its shape, and the indices
  carry the eight fixed keys. When the token or the page id is missing, or the listing of
  the page raises, the run returns the sample document with the indices; when every
  lookup of the feed raises, the indices are eight zero quotes.
\<close>

theorem main_schema_complete:
  "(main pyfloat pyround e api feed = Some out \<longrightarrow>
      dom out = set (map fst doc_schema) \<and>
      (\<forall>k. map_option val_type (out k) = map_of doc_schema k) \<and>
      (\<exists>ix. out ''indices'' = Some (VIndices ix) \<and> map fst ix = map fst TARGETS)) \<and>
   (env_NOTION_TOKEN e = [] \<or> NOTION_PAGE_ID e = [] \<or>
    (\<exists>ex. n_get api (NOTION_PAGE_ID e) None = Inl ex) \<longrightarrow>
      main pyfloat pyround e api feed =
        Some (run_doc e SAMPLE_NOTION (fetch_indices feed pyround))) \<and>
   ((\<forall>symbol. \<exists>ex. feed symbol = Inl ex) \<longrightarrow>
      fetch_indices feed pyround = map (\<lambda>key. (key, zero_quote)) (map fst TARGETS))"
proof -
  have a: "dom out = set (map fst doc_schema) \<and>
      (\<forall>k. map_option val_type (out k) = map_of doc_schema k) \<and>
      (\<exists>ix. out ''indices'' = Some (VIndices ix) \<and> map fst ix = map fst TARGETS)"
    if m: "main pyfloat pyround e api feed = Some out"
  proof -
    have t: "map_option val_type (out k) = map_of doc_schema k" for k
      using m by (rule main_schema(1))
    have "out ''indices'' = Some (VIndices (fetch_indices feed pyround))"
      using m by (rule main_schema(2))
    then show ?thesis using t dom_schema [of out] fetch_indices_keys [of feed pyround] by blast
  qed
  have b: "main pyfloat pyround e api feed =
        Some (run_doc e SAMPLE_NOTION (fetch_indices feed pyround))"
    if c: "env_NOTION_TOKEN e = [] \<or> NOTION_PAGE_ID e = [] \<or>
          (\<exists>ex. n_get api (NOTION_PAGE_ID e) None = Inl ex)"
  proof (cases "env_NOTION_TOKEN e = [] \<or> NOTION_PAGE_ID e = []")
    case True
    then show ?thesis by (rule main_unconfigured)
  next
    case False
    with c obtain ex where "n_get api (NOTION_PAGE_ID e) None = Inl ex" by blast
    then have "fetch_notion pyfloat api (NOTION_PAGE_ID e) (today e) = Some (Inl ex)"
      by (rule fetch_notion_discovery_raises)
    then show ?thesis by (rule main_raise)
  qed
  have c: "fetch_indices feed pyround = map (\<lambda>key. (key, zero_quote)) (map fst TARGETS)"
    if "\<forall>symbol. \<exists>ex. feed symbol = Inl ex"
    using that by (intro fetch_indices_down) blast
  from a b c show ?thesis by blast
qed

theorem main_schema_complete_witness:
  "main decimal_float round_half_even ex_env ex_api_down ex_feed_down = Some ex_down_doc \<and>
   main decimal_float round_half_even ex_env_unset ex_api_down ex_feed_down =
     Some (run_doc ex_env_unset SAMPLE_NOTION (fetch_indices ex_feed_down round_half_even)) \<and>
   map_option val_type (ex_down_doc ''summary'') = Some T_string_list \<and>
   map_option val_type (ex_down_doc ''news'') = Some T_news \<and>
   map_option val_type (ex_down_doc ''indices'') = Some T_indices \<and>
   ex_down_doc ''other'' = None"
proof -
  have g: "\<exists>ex. n_get ex_api_down (NOTION_PAGE_ID ex_env) None = Inl ex"
    by (simp add: ex_api_down_def)
  have f: "\<forall>symbol. \<exists>ex. ex_feed_down symbol = Inl ex" by (simp add: ex_feed_down_def)
  have m: "main decimal_float round_half_even ex_env ex_api_down ex_feed_down = Some ex_down_doc"
    using main_schema_complete [of decimal_float round_half_even ex_env ex_api_down ex_feed_down] g
    by (simp add: ex_down_doc_def ex_indices_down)
  have u: "main decimal_float round_half_even ex_env_unset ex_api_down ex_feed_down =
     Some (run_doc ex_env_unset SAMPLE_NOTION (fetch_indices ex_feed_down round_half_even))"
    using main_schema_complete [of decimal_float round_half_even ex_env_unset ex_api_down ex_feed_down]
    by (simp add: ex_env_simps)
  have t: "map_option val_type (ex_down_doc k) = map_of doc_schema k" for k
    using main_schema_complete [of decimal_float round_half_even ex_env ex_api_down ex_feed_down
        ex_down_doc] m by blast
  show ?thesis using m u t [of "''summary''"] t [of "''news''"] t [of "''indices''"] t [of "''other''"]
    by (simp add: doc_schema_def)
qed

section \<open>Missing tables\<close>






section \<open>A query that raises\<close>

lemma child_dbs_loop_transfer:
  assumes "child_dbs_loop api page_id dbs cursor = Some y" and "n_get api' = n_get api"
  shows "child_dbs_loop api' page_id dbs cursor = Some y"
proof -
  have "n_get api' = n_get api \<longrightarrow> child_dbs_loop api' page_id dbs cursor = Some y"
  proof (rule child_dbs_loop.raw_induct
      [where P = "\<lambda>api page_id dbs cursor y.
                    n_get api' = n_get api \<longrightarrow> child_dbs_loop api' page_id dbs cursor = Some y",
       OF _ assms(1)])
    fix f api page_id dbs cursor y
    assume IH: "\<And>api page_id dbs cursor y. f api page_id dbs cursor = Some y \<Longrightarrow>
        n_get api' = n_get api \<longrightarrow> child_dbs_loop api' page_id dbs cursor = Some y"
      and step: "(case n_get api page_id (if truthy cursor then cursor else None) of
          Inl e \<Rightarrow> Some (Inl e)
        | Inr data \<Rightarrow>
            let dbs' = dbs @ map child_db_of
                  (filter (\<lambda>b. block_type b = ascii ''child_database'') (results data))
            in if \<not> has_more data then Some (Inr dbs')
               else f api page_id dbs' (next_cursor data)) = Some y"
    show "n_get api' = n_get api \<longrightarrow> child_dbs_loop api' page_id dbs cursor = Some y"
    proof
      assume eq: "n_get api' = n_get api"
      show "child_dbs_loop api' page_id dbs cursor = Some y"
        using step IH eq
        by (subst child_dbs_loop.simps) (auto simp: Let_def split: sum.splits if_splits)
    qed
  qed
  with assms(2) show ?thesis by simp
qed

lemma child_dbs_loop_cong:
  assumes "n_get api' = n_get api"
  shows "child_dbs_loop api' page_id dbs cursor = child_dbs_loop api page_id dbs cursor"
proof (cases "child_dbs_loop api page_id dbs cursor")
  case (Some y)
  then have "child_dbs_loop api' page_id dbs cursor = Some y"
    using assms by (rule child_dbs_loop_transfer)
  with Some show ?thesis by simp
next
  case None
  show ?thesis
  proof (cases "child_dbs_loop api' page_id dbs cursor")
    case (Some y)
    then have "child_dbs_loop api page_id dbs cursor = Some y"
      using assms [symmetric] by (rule child_dbs_loop_transfer)
    with None show ?thesis by simp
  next
    case None
    with \<open>child_dbs_loop api page_id dbs cursor = None\<close> show ?thesis by simp
  qed
qed

lemma query_loop_transfer:
  assumes "query_loop api dbid body rows cursor = Some y"
    and "agree_on (filter_title body) api api'"
  shows "query_loop api' dbid body rows cursor = Some y"
proof -
  have "agree_on (filter_title body) api api' \<longrightarrow> query_loop api' dbid body rows cursor = Some y"
  proof (rule query_loop.raw_induct
      [where P = "\<lambda>api dbid body rows cursor y.
                    agree_on (filter_title body) api api' \<longrightarrow>
                    query_loop api' dbid body rows cursor = Some y",
       OF _ assms(1)])
    fix f api dbid body rows cursor y
    assume IH: "\<And>api dbid body rows cursor y. f api dbid body rows cursor = Some y \<Longrightarrow>
        agree_on (filter_title body) api api' \<longrightarrow> query_loop api' dbid body rows cursor = Some y"
      and step: "(let body' = if truthy cursor then body\<lparr>start_cursor := cursor\<rparr> else body
         in case n_post api dbid body' of
              Inl e \<Rightarrow> Some (Inl e)
            | Inr data \<Rightarrow>
                let rows' = rows @ results data
                in if \<not> has_more data then Some (Inr rows')
                   else f api dbid body' rows' (next_cursor data)) = Some y"
    show "agree_on (filter_title body) api api' \<longrightarrow> query_loop api' dbid body rows cursor = Some y"
    proof
      assume ag: "agree_on (filter_title body) api api'"
      let ?body' = "if truthy cursor then body\<lparr>start_cursor := cursor\<rparr> else body"
      have ft: "filter_title ?body' = filter_title body" by simp
      then have post: "n_post api' dbid ?body' = n_post api dbid ?body'"
        using ag unfolding agree_on_def by blast
      have ag': "agree_on (filter_title ?body') api api'" using ag ft by simp
      show "query_loop api' dbid body rows cursor = Some y"
      proof (cases "n_post api dbid ?body'")
        case (Inl e)
        with step post show ?thesis
          by (subst query_loop.simps) (simp add: Let_def)
      next
        case (Inr data)
        show ?thesis
        proof (cases "has_more data")
          case False
          with step post Inr show ?thesis
            by (subst query_loop.simps) (simp add: Let_def)
        next
          case True
          with step Inr have "f api dbid ?body' (rows @ results data) (next_cursor data) = Some y"
            by (simp add: Let_def)
          with IH ag' have "query_loop api' dbid ?body' (rows @ results data) (next_cursor data) = Some y"
            by blast
          with post Inr True show ?thesis
            by (subst query_loop.simps) (simp add: Let_def)
        qed
      qed
    qed
  qed
  with assms(2) show ?thesis by simp
qed

lemma agree_on_sym: "agree_on flt api api' \<Longrightarrow> agree_on flt api' api"
  by (simp add: agree_on_def)

lemma query_loop_cong:
  assumes "agree_on (filter_title body) api api'"
  shows "query_loop api' dbid body rows cursor = query_loop api dbid body rows cursor"
proof (cases "query_loop api dbid body rows cursor")
  case (Some y)
  then have "query_loop api' dbid body rows cursor = Some y"
    using assms by (rule query_loop_transfer)
  with Some show ?thesis by simp
next
  case None
  show ?thesis
  proof (cases "query_loop api' dbid body rows cursor")
    case (Some y)
    then have "query_loop api dbid body rows cursor = Some y"
      using agree_on_sym [OF assms] by (rule query_loop_transfer)
    with None show ?thesis by simp
  next
    case None
    with \<open>query_loop api dbid body rows cursor = None\<close> show ?thesis by simp
  qed
qed

lemma raise_news_agree: "agree_on (Equals t) api (raise_news api today_str ex)"
  by (auto simp: agree_on_def raise_news_def news_body_def)

lemma raise_news_n_get: "n_get (raise_news api today_str ex) = n_get api"
  by (simp add: raise_news_def)

lemma raise_news_query:
  "query_by_date (raise_news api today_str ex) dbid date_col t = query_by_date api dbid date_col t"
  unfolding query_by_date_def
  by (rule query_loop_cong) (simp add: query_body_def raise_news_agree)

lemma raise_news_child_dbs:
  "get_child_dbs (raise_news api today_str ex) page_id = get_child_dbs api page_id"
  unfolding get_child_dbs_def by (rule child_dbs_loop_cong) (rule raise_news_n_get)

lemma raise_news_table1:
  "table1 (raise_news api today_str ex) dbs t = table1 api dbs t"
  by (simp add: table1_def parse_db1_def raise_news_query)

lemma raise_news_table2:
  "table2 pyfloat (raise_news api today_str ex) dbs t = table2 pyfloat api dbs t"
  by (simp add: table2_def parse_db2_def raise_news_query)

lemma raise_news_table4:
  "table4 (raise_news api today_str ex) dbs t = table4 api dbs t"
  by (simp add: table4_def parse_db4_def raise_news_query)

lemma raise_news_table3:
  "table3 (raise_news api today_str ex) dbs today_str = Some (Inr [''news'' \<mapsto> VNews []])"
  by (simp add: table3_def parse_db3_def query_news_def raise_news_def)


lemma fetch_notion_raise_news:
  assumes "fetch_notion pyfloat api page_id today_str = Some (Inr (r :: 'n::zero doc))"
  shows "fetch_notion pyfloat (raise_news api today_str ex) page_id today_str =
           Some (Inr (r(''news'' \<mapsto> VNews [])))"
proof -
  from assms obtain dbs r1 r2 r3 r4 where
    dbs: "get_child_dbs api page_id = Some (Inr dbs)"
    and r1: "table1 api dbs today_str = Some (Inr r1)"
    and r2: "table2 pyfloat api dbs today_str = Some (Inr r2)"
    and r3: "table3 api dbs today_str = Some (Inr r3)"
    and r4: "table4 api dbs today_str = Some (Inr r4)"
    and r: "r = Map.empty ++ r1 ++ r2 ++ r3 ++ r4"
    unfolding fetch_notion_Inr by blast
  obtain ns where "(table3 api dbs today_str :: (exn + 'n doc) option) = Some (Inr [''news'' \<mapsto> VNews ns])"
    using table3_shape [of api dbs today_str] by blast
  with r3 have r3': "r3 = [''news'' \<mapsto> VNews ns]" by simp
  obtain rs where rs: "r4 = [''recommendations'' \<mapsto> VRecs rs]"
    using table4_shape [OF r4] by blast
  have "fetch_notion pyfloat (raise_news api today_str ex) page_id today_str =
          Some (Inr (Map.empty ++ r1 ++ r2 ++ [''news'' \<mapsto> VNews []] ++ r4))"
    by (simp add: fetch_notion_def raise_news_child_dbs raise_news_table1 raise_news_table2
        raise_news_table3 raise_news_table4 dbs r1 r2 r4 bind_res_simps)
  moreover have "Map.empty ++ r1 ++ r2 ++ [''news'' \<mapsto> VNews []] ++ r4 = r(''news'' \<mapsto> VNews [])"
    unfolding r r3' rs by (rule ext) simp
  ultimately show ?thesis by simp
qed

lemma table1_raises:
  "1 \<le> length dbs \<Longrightarrow> query_by_date api (db_id (dbs ! 0)) col_date today_str = Some (Inl ex) \<Longrightarrow>
   table1 api dbs today_str = Some (Inl ex)"
  by (simp add: table1_def parse_db1_def bind_res_simps)

lemma table2_raises:
  "2 \<le> length dbs \<Longrightarrow>
   query_by_date api (db_id (dbs ! 1)) col_stock_name today_str = Some (Inl ex) \<Longrightarrow>
   table2 pyfloat api dbs today_str = Some (Inl ex)"
  by (simp add: table2_def parse_db2_def bind_res_simps)

lemma table4_raises:
  "4 \<le> length dbs \<Longrightarrow> query_by_date api (db_id (dbs ! 3)) col_date today_str = Some (Inl ex) \<Longrightarrow>
   table4 api dbs today_str = Some (Inl ex)"
  by (simp add: table4_def parse_db4_def bind_res_simps)

lemma table3_returns: "\<exists>r3. table3 api dbs today_str = Some (Inr r3)"
  by (simp add: table3_def)

lemma fetch_notion_raises:
  assumes "get_child_dbs api page_id = Some (Inr dbs)"
    and "(table1 api dbs today_str :: (exn + 'n doc) option) = Some (Inl ex) \<or>
         (\<exists>r1. table1 api dbs today_str = Some (Inr (r1 :: 'n::zero doc)) \<and>
               table2 pyfloat api dbs today_str = Some (Inl ex)) \<or>
         (\<exists>r1 r2. table1 api dbs today_str = Some (Inr (r1 :: 'n doc)) \<and>
               table2 pyfloat api dbs today_str = Some (Inr (r2 :: 'n doc)) \<and>
               (table4 api dbs today_str :: (exn + 'n doc) option) = Some (Inl ex))"
  shows "(fetch_notion pyfloat api page_id today_str :: (exn + 'n doc) option) = Some (Inl ex)"
proof -
  obtain r3 :: "'n doc" where r3: "table3 api dbs today_str = Some (Inr r3)"
    using table3_returns by blast
  from assms(2) show ?thesis
    by (auto simp: fetch_notion_def assms(1) r3 bind_res_simps)
qed


lemma run_doc_other:
  "k \<noteq> ''news'' \<Longrightarrow> run_doc e (r(''news'' \<mapsto> v)) ix k = run_doc e r ix k"
  by (simp add: run_doc_def map_add_def)

text \<open>
  C2, as the code has it. When the news query raises, the run returns the document of
  the run in which it does not raise, with the news list empty and every other entry,
  the indices among them, unchanged. When the query of the daily summary, of the
  sectors or of the recommendations raises (the tables before it having returned), the
  run returns the sample document with the indices. In every document returned, the
  indices are those the feed lookups give.
\<close>

theorem query_failure_containment:
  "(env_NOTION_TOKEN e \<noteq> [] \<and> NOTION_PAGE_ID e \<noteq> [] \<and>
    fetch_notion pyfloat api (NOTION_PAGE_ID e) (today e) = Some (Inr r) \<longrightarrow>
      main pyfloat pyround e api feed = Some (run_doc e r (fetch_indices feed pyround)) \<and>
      main pyfloat pyround e (raise_news api (today e) ex) feed =
        Some (run_doc e (r(''news'' \<mapsto> VNews [])) (fetch_indices feed pyround)) \<and>
      (k \<noteq> ''news'' \<longrightarrow>
         run_doc e (r(''news'' \<mapsto> VNews [])) (fetch_indices feed pyround) k =
         run_doc e r (fetch_indices feed pyround) k)) \<and>
   (get_child_dbs api (NOTION_PAGE_ID e) = Some (Inr dbs) \<and>
    ((1 \<le> length dbs \<and>
      query_by_date api (db_id (dbs ! 0)) col_date (today e) = Some (Inl ex)) \<or>
     (2 \<le> length dbs \<and>
      (\<exists>r1 :: 'n doc. table1 api dbs (today e) = Some (Inr r1)) \<and>
      query_by_date api (db_id (dbs ! 1)) col_stock_name (today e) = Some (Inl ex)) \<or>
     (4 \<le> length dbs \<and>
      (\<exists>r1 :: 'n doc. table1 api dbs (today e) = Some (Inr r1)) \<and>
      (\<exists>r2 :: 'n doc. table2 pyfloat api dbs (today e) = Some (Inr r2)) \<and>
      query_by_date api (db_id (dbs ! 3)) col_date (today e) = Some (Inl ex))) \<longrightarrow>
      main pyfloat pyround e api feed =
        Some (run_doc e SAMPLE_NOTION (fetch_indices feed pyround))) \<and>
   (main pyfloat pyround e api feed =
      Some (out :: 'n::{zero,numeral,uminus,minus,times,inverse,ord} doc) \<longrightarrow>
      out ''indices'' = Some (VIndices (fetch_indices feed pyround)))"
proof -
  have a: "main pyfloat pyround e api feed = Some (run_doc e r (fetch_indices feed pyround)) \<and>
      main pyfloat pyround e (raise_news api (today e) ex) feed =
        Some (run_doc e (r(''news'' \<mapsto> VNews [])) (fetch_indices feed pyround)) \<and>
      (k \<noteq> ''news'' \<longrightarrow>
         run_doc e (r(''news'' \<mapsto> VNews [])) (fetch_indices feed pyround) k =
         run_doc e r (fetch_indices feed pyround) k)"
    if t: "env_NOTION_TOKEN e \<noteq> []" and p: "NOTION_PAGE_ID e \<noteq> []"
      and f: "fetch_notion pyfloat api (NOTION_PAGE_ID e) (today e) = Some (Inr r)"
  proof -
    have "main pyfloat pyround e api feed = Some (run_doc e r (fetch_indices feed pyround))"
      using t p f by (rule main_ok)
    moreover have "main pyfloat pyround e (raise_news api (today e) ex) feed =
        Some (run_doc e (r(''news'' \<mapsto> VNews [])) (fetch_indices feed pyround))"
      using t p fetch_notion_raise_news [OF f] by (rule main_ok)
    ultimately show ?thesis by (simp add: run_doc_other)
  qed
  have b: "main pyfloat pyround e api feed =
        Some (run_doc e SAMPLE_NOTION (fetch_indices feed pyround))"
    if d: "get_child_dbs api (NOTION_PAGE_ID e) = Some (Inr dbs)"
      and c: "(1 \<le> length dbs \<and>
          query_by_date api (db_id (dbs ! 0)) col_date (today e) = Some (Inl ex)) \<or>
         (2 \<le> length dbs \<and>
          (\<exists>r1 :: 'n doc. table1 api dbs (today e) = Some (Inr r1)) \<and>
          query_by_date api (db_id (dbs ! 1)) col_stock_name (today e) = Some (Inl ex)) \<or>
         (4 \<le> length dbs \<and>
          (\<exists>r1 :: 'n doc. table1 api dbs (today e) = Some (Inr r1)) \<and>
          (\<exists>r2 :: 'n doc. table2 pyfloat api dbs (today e) = Some (Inr r2)) \<and>
          query_by_date api (db_id (dbs ! 3)) col_date (today e) = Some (Inl ex))"
  proof -
    have "(table1 api dbs (today e) :: (exn + 'n doc) option) = Some (Inl ex) \<or>
         (\<exists>r1. table1 api dbs (today e) = Some (Inr (r1 :: 'n doc)) \<and>
               table2 pyfloat api dbs (today e) = Some (Inl ex)) \<or>
         (\<exists>r1 r2. table1 api dbs (today e) = Some (Inr (r1 :: 'n doc)) \<and>
               table2 pyfloat api dbs (today e) = Some (Inr (r2 :: 'n doc)) \<and>
               (table4 api dbs (today e) :: (exn + 'n doc) option) = Some (Inl ex))"
      using c table1_raises [of dbs api "today e" ex] table2_raises [of dbs api "today e" ex pyfloat]
        table4_raises [of dbs api "today e" ex]
      by blast
    with d have "(fetch_notion pyfloat api (NOTION_PAGE_ID e) (today e) :: (exn + 'n doc) option) =
        Some (Inl ex)"
      by (rule fetch_notion_raises)
    then show ?thesis by (rule main_raise)
  qed
  have c: "out ''indices'' = Some (VIndices (fetch_indices feed pyround))"
    if "main pyfloat pyround e api feed = Some out"
    using that by (rule main_schema(2))
  from a b c show ?thesis by blast
qed

theorem query_failure_containment_witness:
  "main decimal_float round_half_even ex_env (raise_news (ex_api 4 []) ex_today TransportError)
     ex_feed =
     Some (run_doc ex_env ((ex_notion_doc ex_recs)(''news'' \<mapsto> VNews []))
            (fetch_indices ex_feed round_half_even)) \<and>
   run_doc ex_env ((ex_notion_doc ex_recs)(''news'' \<mapsto> VNews []))
     (fetch_indices ex_feed round_half_even) ''news'' = Some (VNews []) \<and>
   run_doc ex_env ((ex_notion_doc ex_recs)(''news'' \<mapsto> VNews []))
     (fetch_indices ex_feed round_half_even) ''summary'' =
     Some (VStrList [ascii ''A'', ascii ''B'']) \<and>
   run_doc ex_env ((ex_notion_doc ex_recs)(''news'' \<mapsto> VNews []))
     (fetch_indices ex_feed round_half_even) ''recommendations'' = Some (VRecs ex_recs)"
proof -
  have f: "fetch_notion decimal_float (ex_api 4 []) (NOTION_PAGE_ID ex_env) (today ex_env) =
      Some (Inr (ex_notion_doc ex_recs))"
    by (rule ex_fetch_notion4)
  have t: "env_NOTION_TOKEN ex_env \<noteq> []" "NOTION_PAGE_ID ex_env \<noteq> []"
    by (simp_all add: ex_env_simps ascii_def)
  have "main decimal_float round_half_even ex_env
      (raise_news (ex_api 4 []) (today ex_env) TransportError) ex_feed =
     Some (run_doc ex_env ((ex_notion_doc ex_recs)(''news'' \<mapsto> VNews []))
            (fetch_indices ex_feed round_half_even))"
    using query_failure_containment [of ex_env decimal_float "ex_api 4 []" "ex_notion_doc ex_recs"
        round_half_even ex_feed TransportError] f t
    by blast
  then show ?thesis
    by (simp add: ex_env_simps run_doc_def ex_notion_doc_def notion_doc_def)
qed

text \<open>
  C2 as stated fails when the query of the daily summary raises: the run returns the
  sample summary of three lines, not the empty list, and the four sample news items,
  although the news normalizer yields two items of its own on this provider.
\<close>

theorem summary_query_counterexample:
  "query_by_date (ex_api 4 (ascii ''db1'')) (ascii ''db1'') col_date ex_today =
     Some (Inl TransportError) \<and>
   main decimal_float round_half_even ex_env (ex_api 4 (ascii ''db1'')) ex_feed =
     Some (run_doc ex_env SAMPLE_NOTION (fetch_indices ex_feed round_half_even)) \<and>
   run_doc ex_env SAMPLE_NOTION (fetch_indices ex_feed round_half_even) ''summary'' =
     Some (VStrList sample_summary) \<and>
   length sample_summary = 3 \<and>
   run_doc ex_env SAMPLE_NOTION (fetch_indices ex_feed round_half_even) ''news'' =
     Some (VNews sample_news) \<and>
   (parse_db3 (ex_api 4 (ascii ''db1'')) (ascii ''db3'') ex_today :: rat doc) =
     [''news'' \<mapsto> VNews ex_news] \<and>
   length ex_news = 2 \<and> length sample_news = 4"
proof -
  have "main decimal_float round_half_even ex_env (ex_api 4 (ascii ''db1'')) ex_feed =
     Some (run_doc ex_env SAMPLE_NOTION (fetch_indices ex_feed round_half_even))"
    by (rule main_raise) (rule ex_fetch_notion_fails)
  moreover have "(parse_db3 (ex_api 4 (ascii ''db1'')) (ascii ''db3'') ex_today :: rat doc) =
      [''news'' \<mapsto> VNews ex_news]"
    by (rule ex_db3) (simp add: ascii_def)
  moreover have "run_doc ex_env SAMPLE_NOTION (fetch_indices ex_feed round_half_even) ''summary'' =
     Some (VStrList sample_summary)"
    "run_doc ex_env SAMPLE_NOTION (fetch_indices ex_feed round_half_even) ''news'' =
     Some (VNews sample_news)"
    by (simp_all add: run_doc_def SAMPLE_NOTION_def)
  moreover have "length sample_summary = 3" "length ex_news = 2" "length sample_news = 4"
    by (simp_all add: sample_summary_def ex_news_def sample_news_def)
  ultimately show ?thesis using ex_query_fails [of 4 "ascii ''db1''" col_date ex_today] by blast
qed

end
